theory Spec2Isabelle
  imports Main "HOL-Library.Word" "HOL-Library.Sublist" "HOL-Library.List_Lexorder"
begin

unbundle bit_operations_syntax

section \<open>Python values used by apply.py\<close>

text \<open>
  A Python \<open>str\<close> is a sequence of Unicode code points, a \<open>bytes\<close> object a sequence of
  octets. String literals of the source are written with \<open>lit\<close>, which maps each ASCII
  character to its code point.
\<close>

type_synonym str = "nat list"
type_synonym bytes = "8 word list"

definition lit :: "string \<Rightarrow> str" where
  "lit s = map of_char s"

text \<open>\<open>print(x, file=...)\<close> writes the text followed by a newline.\<close>

definition print_line :: "str \<Rightarrow> str" where
  "print_line s = s @ [10]"

subsection \<open>\<open>str.strip()\<close>, \<open>str.rstrip(chars)\<close>, \<open>str.replace(old, new)\<close>\<close>

text \<open>The code points for which \<open>str.isspace()\<close> holds; \<open>strip()\<close> removes them at both ends.\<close>

definition isspace :: "nat \<Rightarrow> bool" where
  "isspace c \<longleftrightarrow>
     (9 \<le> c \<and> c \<le> 13) \<or> (28 \<le> c \<and> c \<le> 32) \<or> c = 133 \<or> c = 160 \<or> c = 5760 \<or>
     (8192 \<le> c \<and> c \<le> 8202) \<or> c = 8232 \<or> c = 8233 \<or> c = 8239 \<or> c = 8287 \<or> c = 12288"

definition strip :: "str \<Rightarrow> str" where
  "strip s = dropWhile isspace (rev (dropWhile isspace (rev s)))"

definition rstrip :: "str \<Rightarrow> str \<Rightarrow> str" where
  "rstrip chars s = rev (dropWhile (\<lambda>c. c \<in> set chars) (rev s))"

function py_replace :: "str \<Rightarrow> str \<Rightarrow> str \<Rightarrow> str" where
  "py_replace old new s =
     (if old = [] then new @ concat (map (\<lambda>c. c # new) s)
      else if s = [] then []
      else if prefix old s then new @ py_replace old new (drop (length old) s)
      else hd s # py_replace old new (tl s))"
  by pat_completeness auto
termination
  by (relation "measure (\<lambda>(old, new, s). length s)") auto

subsection \<open>Decimal formatting\<close>

function decimal :: "nat \<Rightarrow> str" where
  "decimal n = (if n < 10 then [48 + n] else decimal (n div 10) @ [48 + n mod 10])"
  by pat_completeness auto
termination
  by (relation "measure id") auto

text \<open>\<open>"%0wd" % n\<close> for a non-negative \<open>n\<close>: at least \<open>w\<close> digits, zero-padded on the left.\<close>

definition zpad :: "nat \<Rightarrow> nat \<Rightarrow> str" where
  "zpad w n = replicate (w - length (decimal n)) 48 @ decimal n"

text \<open>\<open>str(n)\<close> for a Python \<open>int\<close>.\<close>

definition str_int :: "int \<Rightarrow> str" where
  "str_int i = (if i < 0 then 45 # decimal (nat (- i)) else decimal (nat i))"

section \<open>The process environment and the clock\<close>

type_synonym env = "str \<rightharpoonup> str"

text \<open>\<open>os.getenv(name, default)\<close>.\<close>

definition getenv :: "env \<Rightarrow> str \<Rightarrow> str \<Rightarrow> str" where
  "getenv e name dflt = (case e name of None \<Rightarrow> dflt | Some v \<Rightarrow> v)"

text \<open>
  The fields of the aware \<open>datetime\<close> returned by \<open>datetime.now(timezone.utc)\<close>; its
  offset is zero. The library keeps the fields within the ranges of \<open>valid_datetime\<close>.
\<close>

record datetime =
  year :: nat
  month :: nat
  day :: nat
  hour :: nat
  minute :: nat
  second :: nat
  microsecond :: nat

definition valid_datetime :: "datetime \<Rightarrow> bool" where
  "valid_datetime d \<longleftrightarrow>
     1 \<le> year d \<and> year d \<le> 9999 \<and> 1 \<le> month d \<and> month d \<le> 12 \<and>
     1 \<le> day d \<and> day d \<le> 31 \<and> hour d < 24 \<and> minute d < 60 \<and> second d < 60 \<and>
     microsecond d < 1000000"

text \<open>\<open>d.isoformat(timespec="milliseconds")\<close> for a datetime whose offset is UTC.\<close>

definition isoformat_ms :: "datetime \<Rightarrow> str" where
  "isoformat_ms d =
     zpad 4 (year d) @ lit ''-'' @ zpad 2 (month d) @ lit ''-'' @ zpad 2 (day d) @ lit ''T'' @
     zpad 2 (hour d) @ lit '':'' @ zpad 2 (minute d) @ lit '':'' @ zpad 2 (second d) @ lit ''.'' @
     zpad 3 (microsecond d div 1000) @ lit ''+00:00''"

section \<open>Control flow: \<open>sys.exit\<close> and uncaught exceptions\<close>

datatype py_exception = UnicodeEncodeError | AttributeError | RecursionError | ValueError

text \<open>
  A computation returns, or leaves through \<open>sys.exit(code)\<close> after printing a text to
  the error stream, or raises an exception that nothing catches.
\<close>

datatype 'a result = Return 'a | SysExit nat str | Raise py_exception

definition bind :: "'a result \<Rightarrow> ('a \<Rightarrow> 'b result) \<Rightarrow> 'b result" where
  "bind r f = (case r of Return x \<Rightarrow> f x | SysExit code err \<Rightarrow> SysExit code err | Raise ex \<Rightarrow> Raise ex)"

section \<open>\<open>json.dumps\<close> and \<open>str.encode\<close>\<close>

definition hex_digit :: "nat \<Rightarrow> nat" where
  "hex_digit n = (if n < 10 then 48 + n else 87 + n)"

text \<open>
  The replacement that \<open>json.encoder.encode_basestring\<close> makes for one character when
  \<open>ensure_ascii\<close> is false: the quote, the backslash and the control characters below
  \<open>0x20\<close> are escaped, every other code point stands for itself.
\<close>

definition escape_char :: "nat \<Rightarrow> str" where
  "escape_char c =
     (if c = 34 then lit [CHR 0x5C, CHR 0x22]
      else if c = 92 then lit [CHR 0x5C, CHR 0x5C]
      else if c = 10 then lit [CHR 0x5C, CHR ''n'']
      else if c = 13 then lit [CHR 0x5C, CHR ''r'']
      else if c = 9 then lit [CHR 0x5C, CHR ''t'']
      else if c = 8 then lit [CHR 0x5C, CHR ''b'']
      else if c = 12 then lit [CHR 0x5C, CHR ''f'']
      else if c < 32 then lit [CHR 0x5C, CHR ''u'', CHR ''0'', CHR ''0''] @ [hex_digit (c div 16), hex_digit (c mod 16)]
      else [c])"

definition encode_basestring :: "str \<Rightarrow> str" where
  "encode_basestring s = [34] @ concat (map escape_char s) @ [34]"

fun join :: "str \<Rightarrow> str list \<Rightarrow> str" where
  "join sep [] = []"
| "join sep [x] = x"
| "join sep (x # y # ys) = x @ sep @ join sep (y # ys)"

text \<open>
  \<open>json.dumps(d, separators=(",", ":"), sort_keys=True, ensure_ascii=False)\<close> for a
  dictionary \<open>d\<close> from strings to strings, given as its items in insertion order. The
  items are sorted by key, strings being compared code point by code point.
\<close>

definition json_dumps :: "(str \<times> str) list \<Rightarrow> str" where
  "json_dumps d =
     lit ''{'' @
     join (lit '','')
       (map (\<lambda>(k, v). encode_basestring k @ lit '':'' @ encode_basestring v) (sort_key fst d)) @
     lit ''}''"

text \<open>
  The UTF-8 form of one code point. A surrogate (\<open>0xD800\<close> to \<open>0xDFFF\<close>) has none:
  \<open>str.encode("utf-8")\<close> raises \<open>UnicodeEncodeError\<close>, here \<open>None\<close>.
\<close>

definition utf8_encode_char :: "nat \<Rightarrow> bytes option" where
  "utf8_encode_char c =
     (if c < 0x80 then Some [of_nat c]
      else if c < 0x800 then Some [of_nat (0xC0 + c div 64), of_nat (0x80 + c mod 64)]
      else if 0xD800 \<le> c \<and> c \<le> 0xDFFF then None
      else if c < 0x10000 then
        Some [of_nat (0xE0 + c div 4096), of_nat (0x80 + c div 64 mod 64), of_nat (0x80 + c mod 64)]
      else if c < 0x110000 then
        Some [of_nat (0xF0 + c div 262144), of_nat (0x80 + c div 4096 mod 64),
              of_nat (0x80 + c div 64 mod 64), of_nat (0x80 + c mod 64)]
      else None)"

fun utf8_encode :: "str \<Rightarrow> bytes option" where
  "utf8_encode [] = Some []"
| "utf8_encode (c # cs) =
     (case utf8_encode_char c of
        None \<Rightarrow> None
      | Some bs \<Rightarrow> (case utf8_encode cs of None \<Rightarrow> None | Some rest \<Rightarrow> Some (bs @ rest)))"

section \<open>\<open>hashlib.sha256\<close> and \<open>hmac\<close>\<close>

type_synonym w32 = "32 word"

text \<open>
  The round constants are the first 32 bits of the fractional parts of the cube roots of
  the first sixty-four primes, the initial state those of the square roots of the first
  eight.
\<close>

definition K256 :: "w32 list" where
  "K256 =
    [1116352408, 1899447441, 3049323471, 3921009573, 961987163, 1508970993,
     2453635748, 2870763221, 3624381080, 310598401, 607225278, 1426881987,
     1925078388, 2162078206, 2614888103, 3248222580, 3835390401, 4022224774,
     264347078, 604807628, 770255983, 1249150122, 1555081692, 1996064986,
     2554220882, 2821834349, 2952996808, 3210313671, 3336571891, 3584528711,
     113926993, 338241895, 666307205, 773529912, 1294757372, 1396182291,
     1695183700, 1986661051, 2177026350, 2456956037, 2730485921, 2820302411,
     3259730800, 3345764771, 3516065817, 3600352804, 4094571909, 275423344,
     430227734, 506948616, 659060556, 883997877, 958139571, 1322822218,
     1537002063, 1747873779, 1955562222, 2024104815, 2227730452, 2361852424,
     2428436474, 2756734187, 3204031479, 3329325298]"

type_synonym sha_state = "w32 \<times> w32 \<times> w32 \<times> w32 \<times> w32 \<times> w32 \<times> w32 \<times> w32"

definition H256 :: sha_state where
  "H256 = (1779033703, 3144134277, 1013904242, 2773480762,
           1359893119, 2600822924, 528734635, 1541459225)"

definition ssig0 :: "w32 \<Rightarrow> w32" where
  "ssig0 x = word_rotr 7 x XOR word_rotr 18 x XOR drop_bit 3 x"

definition ssig1 :: "w32 \<Rightarrow> w32" where
  "ssig1 x = word_rotr 17 x XOR word_rotr 19 x XOR drop_bit 10 x"

definition bsig0 :: "w32 \<Rightarrow> w32" where
  "bsig0 x = word_rotr 2 x XOR word_rotr 13 x XOR word_rotr 22 x"

definition bsig1 :: "w32 \<Rightarrow> w32" where
  "bsig1 x = word_rotr 6 x XOR word_rotr 11 x XOR word_rotr 25 x"

text \<open>Four octets, most significant first, as one 32-bit word, and back.\<close>

definition be32 :: "bytes \<Rightarrow> w32" where
  "be32 bs = foldl (\<lambda>acc b. push_bit 8 acc OR ucast b) 0 bs"

definition bytes_of_w32 :: "w32 \<Rightarrow> bytes" where
  "bytes_of_w32 x = [ucast (drop_bit 24 x), ucast (drop_bit 16 x), ucast (drop_bit 8 x), ucast x]"

fun chunks :: "nat \<Rightarrow> nat \<Rightarrow> 'a list \<Rightarrow> 'a list list" where
  "chunks 0 n xs = []"
| "chunks (Suc k) n xs = take n xs # chunks k n (drop n xs)"

text \<open>The message schedule: the sixteen words of a block, extended to sixty-four.\<close>

fun extend_schedule :: "nat \<Rightarrow> w32 list \<Rightarrow> w32 list" where
  "extend_schedule 0 w = w"
| "extend_schedule (Suc k) w =
     (let t = length w in
      extend_schedule k
        (w @ [ssig1 (w ! (t - 2)) + w ! (t - 7) + ssig0 (w ! (t - 15)) + w ! (t - 16)]))"

definition sha_round :: "sha_state \<Rightarrow> w32 \<times> w32 \<Rightarrow> sha_state" where
  "sha_round st kw =
     (case st of (a, b, c, d, e, f, g, h) \<Rightarrow>
        let t1 = h + bsig1 e + ((e AND f) XOR (NOT e AND g)) + fst kw + snd kw;
            t2 = bsig0 a + ((a AND b) XOR (a AND c) XOR (b AND c))
        in (t1 + t2, a, b, c, d + t1, e, f, g))"

definition add_state :: "sha_state \<Rightarrow> sha_state \<Rightarrow> sha_state" where
  "add_state s t =
     (case s of (a, b, c, d, e, f, g, h) \<Rightarrow> case t of (a', b', c', d', e', f', g', h') \<Rightarrow>
        (a + a', b + b', c + c', d + d', e + e', f + f', g + g', h + h'))"

definition sha_block :: "sha_state \<Rightarrow> bytes \<Rightarrow> sha_state" where
  "sha_block st block =
     add_state st (foldl sha_round st (zip K256 (extend_schedule 48 (map be32 (chunks 16 4 block)))))"

text \<open>
  Padding: the octet \<open>0x80\<close>, zeros up to 56 modulo 64, then the length of the message
  in bits as a 64-bit big-endian number.
\<close>

definition sha_pad :: "bytes \<Rightarrow> bytes" where
  "sha_pad m =
     (let n = length m
      in m @ [0x80] @ replicate ((119 - n mod 64) mod 64) 0 @
         map (\<lambda>i. ucast (drop_bit (8 * (7 - i)) (of_nat (8 * n) :: 64 word))) [0..<8])"

definition sha256 :: "bytes \<Rightarrow> bytes" where
  "sha256 m =
     (let p = sha_pad m
      in case foldl sha_block H256 (chunks (length p div 64) 64 p) of
           (a, b, c, d, e, f, g, h) \<Rightarrow> concat (map bytes_of_w32 [a, b, c, d, e, f, g, h]))"

text \<open>\<open>hmac.new(key, msg, hashlib.sha256).digest()\<close>; the block size of SHA-256 is 64.\<close>

definition hmac_sha256 :: "bytes \<Rightarrow> bytes \<Rightarrow> bytes" where
  "hmac_sha256 key msg =
     (let k = (if length key > 64 then sha256 key else key);
          k' = k @ replicate (64 - length k) 0
      in sha256 (map (\<lambda>b. b XOR 0x5C) k' @ sha256 (map (\<lambda>b. b XOR 0x36) k' @ msg)))"

text \<open>\<open>.hexdigest()\<close>: two lowercase hexadecimal digits for each octet.\<close>

definition hexdigest :: "bytes \<Rightarrow> str" where
  "hexdigest bs = concat (map (\<lambda>b. [hex_digit (unat b div 16), hex_digit (unat b mod 16)]) bs)"

section \<open>\<open>bytes.decode("utf-8")\<close>\<close>

text \<open>
  One step of the decoder of CPython on the octets that remain: a code point and the
  number of continuation octets it took, or one of the three errors of the codec. An
  invalid continuation carries the number of octets, less one, of the sequence it ends.
\<close>

datatype decode_step =
  Decoded nat nat | InvalidStart | InvalidContinuation nat | UnexpectedEnd

definition is_cont :: "nat \<Rightarrow> bool" where
  "is_cont b \<longleftrightarrow> 0x80 \<le> b \<and> b < 0xC0"

definition utf8_step :: "nat list \<Rightarrow> decode_step" where
  "utf8_step bs =
     (case bs of
        [] \<Rightarrow> UnexpectedEnd
      | ch # rest \<Rightarrow>
          if ch < 0x80 then Decoded ch 0
          else if ch < 0xC2 then InvalidStart
          else if ch < 0xE0 then
            (case rest of
               [] \<Rightarrow> UnexpectedEnd
             | ch2 # _ \<Rightarrow>
                 if \<not> is_cont ch2 then InvalidContinuation 0
                 else Decoded ((ch - 0xC0) * 64 + (ch2 - 0x80)) 1)
          else if ch < 0xF0 then
            (case rest of
               [] \<Rightarrow> UnexpectedEnd
             | ch2 # rest2 \<Rightarrow>
                 if \<not> is_cont ch2 \<or> (if ch2 < 0xA0 then ch = 0xE0 else ch = 0xED)
                 then InvalidContinuation 0
                 else (case rest2 of
                         [] \<Rightarrow> UnexpectedEnd
                       | ch3 # _ \<Rightarrow>
                           if \<not> is_cont ch3 then InvalidContinuation 1
                           else Decoded ((ch - 0xE0) * 4096 + (ch2 - 0x80) * 64 + (ch3 - 0x80)) 2))
          else if ch < 0xF5 then
            (case rest of
               [] \<Rightarrow> UnexpectedEnd
             | ch2 # rest2 \<Rightarrow>
                 if \<not> is_cont ch2 \<or> (if ch2 < 0x90 then ch = 0xF0 else ch = 0xF4)
                 then InvalidContinuation 0
                 else (case rest2 of
                         [] \<Rightarrow> UnexpectedEnd
                       | ch3 # rest3 \<Rightarrow>
                           if \<not> is_cont ch3 then InvalidContinuation 1
                           else (case rest3 of
                                   [] \<Rightarrow> UnexpectedEnd
                                 | ch4 # _ \<Rightarrow>
                                     if \<not> is_cont ch4 then InvalidContinuation 2
                                     else Decoded ((ch - 0xF0) * 262144 + (ch2 - 0x80) * 4096 +
                                                   (ch3 - 0x80) * 64 + (ch4 - 0x80)) 3)))
          else InvalidStart)"

text \<open>
  A \<open>UnicodeDecodeError\<close>: the octet at the start of the bad sequence, the positions
  where the sequence starts and ends, and the reason.
\<close>

datatype unicode_decode_error = UnicodeDecodeError nat nat nat string

text \<open>\<open>raw.decode("utf-8")\<close>, from position \<open>pos\<close> on: the text, or the first error.\<close>

function utf8_decode_from :: "nat \<Rightarrow> nat list \<Rightarrow> unicode_decode_error + str" where
  "utf8_decode_from pos bs =
     (if bs = [] then Inr []
      else case utf8_step bs of
             Decoded c k \<Rightarrow>
               (case utf8_decode_from (pos + Suc k) (drop (Suc k) bs) of
                  Inl e \<Rightarrow> Inl e
                | Inr s \<Rightarrow> Inr (c # s))
           | InvalidStart \<Rightarrow> Inl (UnicodeDecodeError (hd bs) pos (pos + 1) ''invalid start byte'')
           | InvalidContinuation k \<Rightarrow>
               Inl (UnicodeDecodeError (hd bs) pos (pos + Suc k) ''invalid continuation byte'')
           | UnexpectedEnd \<Rightarrow>
               Inl (UnicodeDecodeError (hd bs) pos (pos + length bs) ''unexpected end of data''))"
  by pat_completeness auto
termination
  by (relation "measure (\<lambda>(pos, bs). length bs)") auto

definition utf8_decode :: "bytes \<Rightarrow> unicode_decode_error + str" where
  "utf8_decode raw = utf8_decode_from 0 (map unat raw)"

text \<open>
  \<open>raw.decode("utf-8", errors="replace")\<close>: every bad sequence becomes one
  \<open>U+FFFD\<close> and decoding goes on after it.
\<close>

function utf8_decode_replace_from :: "nat list \<Rightarrow> str" where
  "utf8_decode_replace_from bs =
     (if bs = [] then []
      else case utf8_step bs of
             Decoded c k \<Rightarrow> c # utf8_decode_replace_from (drop (Suc k) bs)
           | InvalidStart \<Rightarrow> 0xFFFD # utf8_decode_replace_from (drop 1 bs)
           | InvalidContinuation k \<Rightarrow> 0xFFFD # utf8_decode_replace_from (drop (Suc k) bs)
           | UnexpectedEnd \<Rightarrow> [0xFFFD])"
  by pat_completeness auto
termination
  by (relation "measure length") auto

definition utf8_decode_replace :: "bytes \<Rightarrow> str" where
  "utf8_decode_replace raw = utf8_decode_replace_from (map unat raw)"

text \<open>\<open>str(e)\<close> for a \<open>UnicodeDecodeError\<close> of the \<open>utf-8\<close> codec.\<close>

definition str_decode_error :: "unicode_decode_error \<Rightarrow> str" where
  "str_decode_error err =
     (case err of UnicodeDecodeError b start stop reason \<Rightarrow>
        if stop = start + 1 then
          [39] @ lit ''utf-8'' @ [39] @ lit '' codec can'' @ [39] @ lit ''t decode byte 0x'' @
          [hex_digit (b div 16), hex_digit (b mod 16)] @ lit '' in position '' @ decimal start @
          lit '': '' @ lit reason
        else
          [39] @ lit ''utf-8'' @ [39] @ lit '' codec can'' @ [39] @ lit ''t decode bytes in position '' @
          decimal start @ lit ''-'' @ decimal (stop - 1) @ lit '': '' @ lit reason)"

section \<open>\<open>json.loads\<close>\<close>

text \<open>
  The Python values that \<open>json.loads\<close> returns. A \<open>float\<close> is kept as the decimal
  \<open>m * 10 ^ e\<close> it was read from; a \<open>dict\<close> is the list of its items in insertion
  order, with distinct keys.
\<close>

datatype json =
    JNull
  | JBool bool
  | JInt int
  | JFloat int int
  | JNaN
  | JInfinity bool
  | JString str
  | JArray "json list"
  | JObject "(str \<times> json) list"

text \<open>\<open>d[k] = v\<close> on the items of a dictionary.\<close>

fun dict_set :: "(str \<times> json) list \<Rightarrow> str \<Rightarrow> json \<Rightarrow> (str \<times> json) list" where
  "dict_set [] k v = [(k, v)]"
| "dict_set ((k', v') # d) k v = (if k' = k then (k, v) # d else (k', v') # dict_set d k v)"

definition is_ws :: "nat \<Rightarrow> bool" where
  "is_ws c \<longleftrightarrow> c = 32 \<or> c = 9 \<or> c = 10 \<or> c = 13"

definition skip_ws :: "str \<Rightarrow> str" where
  "skip_ws s = dropWhile is_ws s"

definition is_digit :: "nat \<Rightarrow> bool" where
  "is_digit c \<longleftrightarrow> 48 \<le> c \<and> c \<le> 57"

definition hex_val :: "nat \<Rightarrow> nat option" where
  "hex_val c =
     (if 48 \<le> c \<and> c \<le> 57 then Some (c - 48)
      else if 97 \<le> c \<and> c \<le> 102 then Some (c - 87)
      else if 65 \<le> c \<and> c \<le> 70 then Some (c - 55)
      else None)"

text \<open>The value of exactly four hexadecimal digits.\<close>

definition hex4 :: "str \<Rightarrow> nat option" where
  "hex4 s =
     (case map hex_val s of
        [Some a, Some b, Some c, Some d] \<Rightarrow> Some (((a * 16 + b) * 16 + c) * 16 + d)
      | _ \<Rightarrow> None)"

text \<open>The character that a backslash and \<open>e\<close> stand for, \<open>\u\<close> apart.\<close>

definition unescape :: "nat \<Rightarrow> nat option" where
  "unescape e =
     (if e = 34 then Some 34
      else if e = 92 then Some 92
      else if e = 47 then Some 47
      else if e = 98 then Some 8
      else if e = 102 then Some 12
      else if e = 110 then Some 10
      else if e = 114 then Some 13
      else if e = 116 then Some 9
      else None)"

definition cons_char :: "nat \<Rightarrow> (str \<times> str) option \<Rightarrow> (str \<times> str) option" where
  "cons_char c r = (case r of None \<Rightarrow> None | Some (v, rest) \<Rightarrow> Some (c # v, rest))"

text \<open>
  \<open>scanstring\<close> in strict mode, on the text after the opening quote: the string and the
  text after its closing quote. A high surrogate escape followed by a low surrogate escape
  is one code point.
\<close>

function scanstring :: "str \<Rightarrow> (str \<times> str) option" where
  "scanstring s =
     (case s of
        [] \<Rightarrow> None
      | c # cs \<Rightarrow>
          if c = 34 then Some ([], cs)
          else if c = 92 then
            (case cs of
               [] \<Rightarrow> None
             | e # es \<Rightarrow>
                 if e = 117 then
                   (case hex4 (take 4 es) of
                      None \<Rightarrow> None
                    | Some u \<Rightarrow>
                        if 0xD800 \<le> u \<and> u \<le> 0xDBFF \<and> take 2 (drop 4 es) = [92, 117] then
                          (case hex4 (take 4 (drop 6 es)) of
                             None \<Rightarrow> None
                           | Some u2 \<Rightarrow>
                               if 0xDC00 \<le> u2 \<and> u2 \<le> 0xDFFF then
                                 cons_char (0x10000 + (u - 0xD800) * 1024 + (u2 - 0xDC00))
                                   (scanstring (drop 10 es))
                               else cons_char u (scanstring (drop 4 es)))
                        else cons_char u (scanstring (drop 4 es)))
                 else (case unescape e of
                         None \<Rightarrow> None
                       | Some ch \<Rightarrow> cons_char ch (scanstring es)))
          else if c < 32 then None
          else cons_char c (scanstring cs))"
  by pat_completeness auto
termination
  by (relation "measure length") auto

definition digits_val :: "str \<Rightarrow> nat" where
  "digits_val ds = foldl (\<lambda>a d. 10 * a + (d - 48)) 0 ds"

text \<open>An exponent part: \<open>e\<close> or \<open>E\<close>, an optional sign, at least one digit.\<close>

definition match_exponent :: "str \<Rightarrow> (int \<times> str) option" where
  "match_exponent s =
     (case s of
        [] \<Rightarrow> None
      | c # cs \<Rightarrow>
          if c = 101 \<or> c = 69 then
            (let signed = (cs \<noteq> [] \<and> (hd cs = 45 \<or> hd cs = 43));
                 ds = (if signed then tl cs else cs);
                 digs = takeWhile is_digit ds
             in if digs = [] then None
                else Some (if signed \<and> hd cs = 45 then - int (digits_val digs)
                           else int (digits_val digs),
                           drop (length digs) ds))
          else None)"

text \<open>
  What scanning gives: a value and the text after it, a \<open>JSONDecodeError\<close>
  (\<open>DecodeError\<close>), another exception, or \<open>OutOfFuel\<close> when the fuel of the recursion
  below is spent.
\<close>

datatype parse = Parsed json str | DecodeError | Raises py_exception | OutOfFuel

text \<open>
  Two limits of the interpreter, at their defaults in CPython 3.11. \<open>int\<close> refuses a
  literal of more than \<open>sys.get_int_max_str_digits()\<close> digits with a \<open>ValueError\<close>.
  The scanner enters a recursive call for each array or object it opens: with the
  recursion limit of 1000, of which six levels are in use when \<open>main\<close> calls
  \<open>json.loads\<close>, the 995th nested container raises \<open>RecursionError\<close>.
\<close>

definition int_max_str_digits :: nat where
  "int_max_str_digits = 4300"

definition max_nesting :: nat where
  "max_nesting = 994"

text \<open>
  A number: an optional minus, \<open>0\<close> or a digit string without leading zero, an optional
  fraction, an optional exponent. Without fraction and exponent it is an \<open>int\<close>, which
  may have \<open>int_max_str_digits\<close> digits at most; otherwise it is a \<open>float\<close>.
\<close>

definition match_number :: "str \<Rightarrow> parse option" where
  "match_number s =
     (let neg = (s \<noteq> [] \<and> hd s = 45);
          s1 = (if neg then tl s else s)
      in if s1 = [] \<or> \<not> is_digit (hd s1) then None
         else
           let ip = (if hd s1 = 48 then [48] else takeWhile is_digit s1);
               s2 = drop (length ip) s1;
               fp = (case s2 of
                       d # f # _ \<Rightarrow> if d = 46 \<and> is_digit f then takeWhile is_digit (tl s2) else []
                     | _ \<Rightarrow> []);
               s3 = (if fp = [] then s2 else drop (Suc (length fp)) s2);
               sgn = (\<lambda>n. if neg then - int n else int n)
           in case match_exponent s3 of
                Some (ex, s4) \<Rightarrow>
                  Some (Parsed (JFloat (sgn (digits_val (ip @ fp))) (ex - int (length fp))) s4)
              | None \<Rightarrow>
                  if fp = [] then
                    (if int_max_str_digits < length ip then Some (Raises ValueError)
                     else Some (Parsed (JInt (sgn (digits_val ip))) s3))
                  else Some (Parsed (JFloat (sgn (digits_val (ip @ fp))) (- int (length fp))) s3))"

text \<open>
  The scanner. \<open>d\<close> is the number of nested containers that may still be opened. Every
  call takes one unit of fuel, which \<open>json_loads\<close> supplies in proportion to the length
  of the text.
\<close>

fun scan_once :: "nat \<Rightarrow> nat \<Rightarrow> str \<Rightarrow> parse"
  and parse_array :: "nat \<Rightarrow> nat \<Rightarrow> json list \<Rightarrow> str \<Rightarrow> parse"
  and parse_object :: "nat \<Rightarrow> nat \<Rightarrow> (str \<times> json) list \<Rightarrow> str \<Rightarrow> parse"
where
  "scan_once 0 d s = OutOfFuel"
| "scan_once (Suc n) d s =
     (case s of
        [] \<Rightarrow> DecodeError
      | c # cs \<Rightarrow>
          if c = 34 then
            (case scanstring cs of None \<Rightarrow> DecodeError | Some (v, rest) \<Rightarrow> Parsed (JString v) rest)
          else if c = 123 then
            (if d = 0 then Raises RecursionError
             else let cs' = skip_ws cs
                  in if cs' \<noteq> [] \<and> hd cs' = 125 then Parsed (JObject []) (tl cs')
                     else parse_object n (d - 1) [] cs')
          else if c = 91 then
            (if d = 0 then Raises RecursionError
             else let cs' = skip_ws cs
                  in if cs' \<noteq> [] \<and> hd cs' = 93 then Parsed (JArray []) (tl cs')
                     else parse_array n (d - 1) [] cs')
          else if prefix (lit ''null'') s then Parsed JNull (drop 4 s)
          else if prefix (lit ''true'') s then Parsed (JBool True) (drop 4 s)
          else if prefix (lit ''false'') s then Parsed (JBool False) (drop 5 s)
          else (case match_number s of
                  Some r \<Rightarrow> r
                | None \<Rightarrow>
                    if prefix (lit ''NaN'') s then Parsed JNaN (drop 3 s)
                    else if prefix (lit ''Infinity'') s then Parsed (JInfinity False) (drop 8 s)
                    else if prefix (lit ''-Infinity'') s then Parsed (JInfinity True) (drop 9 s)
                    else DecodeError))"
| "parse_array 0 d acc s = OutOfFuel"
| "parse_array (Suc n) d acc s =
     (case scan_once n d s of
        Parsed v rest \<Rightarrow>
          (let r = skip_ws rest
           in if r \<noteq> [] \<and> hd r = 93 then Parsed (JArray (acc @ [v])) (tl r)
              else if r \<noteq> [] \<and> hd r = 44 then parse_array n d (acc @ [v]) (skip_ws (tl r))
              else DecodeError)
      | DecodeError \<Rightarrow> DecodeError
      | Raises ex \<Rightarrow> Raises ex
      | OutOfFuel \<Rightarrow> OutOfFuel)"
| "parse_object 0 d acc s = OutOfFuel"
| "parse_object (Suc n) d acc s =
     (if s = [] \<or> hd s \<noteq> 34 then DecodeError
      else case scanstring (tl s) of
             None \<Rightarrow> DecodeError
           | Some (key, rest) \<Rightarrow>
               (let r = skip_ws rest
                in if r = [] \<or> hd r \<noteq> 58 then DecodeError
                   else case scan_once n d (skip_ws (tl r)) of
                          Parsed v rest' \<Rightarrow>
                            (let r' = skip_ws rest'
                             in if r' \<noteq> [] \<and> hd r' = 125 then
                                  Parsed (JObject (dict_set acc key v)) (tl r')
                                else if r' \<noteq> [] \<and> hd r' = 44 then
                                  parse_object n d (dict_set acc key v) (skip_ws (tl r'))
                                else DecodeError)
                        | DecodeError \<Rightarrow> DecodeError
                        | Raises ex \<Rightarrow> Raises ex
                        | OutOfFuel \<Rightarrow> OutOfFuel))"

text \<open>
  \<open>json.loads(s)\<close> for a \<open>str\<close>: a byte order mark is refused, white space may surround
  the value, and nothing else may follow it.
\<close>

definition json_loads :: "str \<Rightarrow> parse" where
  "json_loads s =
     (if s \<noteq> [] \<and> hd s = 0xFEFF then DecodeError
      else case scan_once (2 * length s + 2) max_nesting (skip_ws s) of
             Parsed v rest \<Rightarrow> if skip_ws rest = [] then Parsed v [] else DecodeError
           | DecodeError \<Rightarrow> DecodeError
           | Raises ex \<Rightarrow> Raises ex
           | OutOfFuel \<Rightarrow> OutOfFuel)"

subsection \<open>Truth values, \<open>dict.get\<close> and \<open>str\<close>\<close>

text \<open>
  \<open>bool(x)\<close>. A float is false when it is zero: the literal is zero, or so small that it
  rounds to zero, which is at or below half of the least positive double, \<open>2 ^ -1075\<close>.
\<close>

fun truthy :: "json \<Rightarrow> bool" where
  "truthy JNull = False"
| "truthy (JBool b) = b"
| "truthy (JInt i) = (i \<noteq> 0)"
| "truthy (JFloat m e) = (m \<noteq> 0 \<and> \<not> (e < 0 \<and> \<bar>m\<bar> * 2 ^ 1075 \<le> 10 ^ nat (- e)))"
| "truthy JNaN = True"
| "truthy (JInfinity neg) = True"
| "truthy (JString s) = (s \<noteq> [])"
| "truthy (JArray xs) = (xs \<noteq> [])"
| "truthy (JObject d) = (d \<noteq> [])"

text \<open>
  \<open>data.get(key)\<close>: the value, \<open>None\<close> for a missing key, and \<open>AttributeError\<close> when
  \<open>data\<close> is not a dictionary (a list, a string, a number, a boolean or \<open>None\<close>).
\<close>

definition py_get :: "json \<Rightarrow> str \<Rightarrow> json result" where
  "py_get data key =
     (case data of
        JObject d \<Rightarrow> Return (case map_of d key of None \<Rightarrow> JNull | Some v \<Rightarrow> v)
      | _ \<Rightarrow> Raise AttributeError)"

text \<open>
  \<open>str(x)\<close>, which \<open>print\<close> writes. The texts of a float, a list and a dictionary are
  those of \<open>repr\<close>, which is a parameter here.
\<close>

definition py_str :: "(json \<Rightarrow> str) \<Rightarrow> json \<Rightarrow> str" where
  "py_str repr x =
     (case x of
        JNull \<Rightarrow> lit ''None''
      | JBool b \<Rightarrow> (if b then lit ''True'' else lit ''False'')
      | JInt i \<Rightarrow> str_int i
      | JNaN \<Rightarrow> lit ''nan''
      | JInfinity neg \<Rightarrow> (if neg then lit ''-inf'' else lit ''inf'')
      | JString s \<Rightarrow> s
      | _ \<Rightarrow> repr x)"

section \<open>Configuration resolution\<close>

definition B12_ENDPOINT :: str where
  "B12_ENDPOINT = lit ''https://b12.io/apply/submission''"

definition SIGNING_SECRET :: str where
  "SIGNING_SECRET = lit ''hello-there-from-b12''"

definition iso8601_utc_now_ms :: "datetime \<Rightarrow> str" where
  "iso8601_utc_now_ms now = py_replace (lit ''+00:00'') (lit ''Z'') (isoformat_ms now)"

definition required_env :: "env \<Rightarrow> str \<Rightarrow> str result" where
  "required_env e name =
     (let val = strip (getenv e name []) in
      if val = [] then
        SysExit 2 (print_line (lit ''Missing required environment variable: '' @ name))
      else Return val)"

definition github_action_run_link :: "env \<Rightarrow> str result" where
  "github_action_run_link e =
     (let server = rstrip (lit ''/'') (getenv e (lit ''GITHUB_SERVER_URL'') (lit ''https://github.com''));
          repo = strip (getenv e (lit ''GITHUB_REPOSITORY'') []);
          run_id = strip (getenv e (lit ''GITHUB_RUN_ID'') [])
      in if repo \<noteq> [] \<and> run_id \<noteq> [] then
           Return (server @ lit ''/'' @ repo @ lit ''/actions/runs/'' @ run_id)
         else required_env e (lit ''ACTION_RUN_LINK''))"

definition github_repo_link :: "env \<Rightarrow> str result" where
  "github_repo_link e =
     (let server = rstrip (lit ''/'') (getenv e (lit ''GITHUB_SERVER_URL'') (lit ''https://github.com''));
          repo = strip (getenv e (lit ''GITHUB_REPOSITORY'') [])
      in if repo \<noteq> [] then Return (server @ lit ''/'' @ repo)
         else required_env e (lit ''REPOSITORY_LINK''))"

section \<open>The request and the network\<close>

text \<open>
  The arguments of \<open>urllib.request.Request\<close>: \<open>http_method\<close> is its argument
  \<open>method\<close>, and the header names are those given to the constructor.
\<close>

record request =
  full_url :: str
  data :: bytes
  http_method :: str
  headers :: "(str \<times> str) list"

text \<open>
  What the network does with a request and a timeout, after \<open>urllib\<close> has followed
  redirections: a final status and body, or a failure (no connection, a timeout, a
  broken read) with the text of its exception.
\<close>

datatype transport = Responded nat bytes | Failed str

text \<open>
  \<open>urllib.request.urlopen\<close> followed by \<open>read()\<close>. The opener returns a response only
  for a status from 200 to 299 and raises \<open>HTTPError\<close> for every other one.
\<close>

datatype urlopen_result = Response nat bytes | HTTPError nat bytes | OtherException str

definition urlopen :: "(request \<Rightarrow> nat \<Rightarrow> transport) \<Rightarrow> request \<Rightarrow> nat \<Rightarrow> urlopen_result" where
  "urlopen net req timeout =
     (case net req timeout of
        Responded status body \<Rightarrow>
          if 200 \<le> status \<and> status < 300 then Response status body else HTTPError status body
      | Failed msg \<Rightarrow> OtherException msg)"

text \<open>
  Standard output is a UTF-8 text stream. Its error handler is \<open>strict\<close>, or
  \<open>surrogateescape\<close> when the interpreter runs under the C locale. The stream refuses a
  text with a surrogate, except that \<open>surrogateescape\<close> writes the surrogates from
  \<open>U+DC80\<close> to \<open>U+DCFF\<close> as the octets they stand for; \<open>print\<close> then raises
  \<open>UnicodeEncodeError\<close> and nothing is written.
\<close>

datatype error_handler = Strict | SurrogateEscape

definition stdout_accepts :: "error_handler \<Rightarrow> str \<Rightarrow> bool" where
  "stdout_accepts h s =
     list_all (\<lambda>c. if 0xD800 \<le> c \<and> c \<le> 0xDFFF
                    then h = SurrogateEscape \<and> 0xDC80 \<le> c \<and> c \<le> 0xDCFF
                    else c < 0x110000) s"

text \<open>\<open>print(x)\<close>, with the text of \<open>str(x)\<close>: the text written, a newline after it.\<close>

definition print_stdout :: "error_handler \<Rightarrow> str \<Rightarrow> str result" where
  "print_stdout h s =
     (if stdout_accepts h s then Return (print_line s) else Raise UnicodeEncodeError)"

text \<open>Everything outside the program that \<open>main\<close> reads or writes to.\<close>

record world =
  environ :: env
  utc_now :: datetime
  network :: "request \<Rightarrow> nat \<Rightarrow> transport"
  repr :: "json \<Rightarrow> str"
  stdout_errors :: error_handler

section \<open>\<open>main\<close>\<close>

text \<open>Line 53: the override, or else \<open>github_repo_link()\<close>.\<close>

definition main_repository_link :: "env \<Rightarrow> str result" where
  "main_repository_link e =
     (let v = strip (getenv e (lit ''B12_REPOSITORY_LINK'') [])
      in if v \<noteq> [] then Return v else github_repo_link e)"

text \<open>Line 54: the override, or else \<open>github_action_run_link()\<close>.\<close>

definition main_action_run_link :: "env \<Rightarrow> str result" where
  "main_action_run_link e =
     (let v = strip (getenv e (lit ''B12_ACTION_RUN_LINK'') [])
      in if v \<noteq> [] then Return v else github_action_run_link e)"

text \<open>Lines 47 to 54: the e-mail address, the repository link and the run link.\<close>

definition main_config :: "env \<Rightarrow> (str \<times> str \<times> str) result" where
  "main_config e =
     bind (required_env e (lit ''B12_EMAIL'')) (\<lambda>email.
     bind (main_repository_link e) (\<lambda>repository_link.
     bind (main_action_run_link e) (\<lambda>action_run_link.
     Return (email, repository_link, action_run_link))))"

text \<open>Lines 56 to 63: the dictionary, as its items in insertion order.\<close>

definition main_payload :: "str \<times> str \<times> str \<Rightarrow> datetime \<Rightarrow> (str \<times> str) list" where
  "main_payload cfg now =
     (case cfg of (email, repository_link, action_run_link) \<Rightarrow>
        [(lit ''timestamp'', iso8601_utc_now_ms now),
         (lit ''name'', lit ''Luciano Almenares''),
         (lit ''email'', email),
         (lit ''resume_link'', lit ''https://www.linkedin.com/in/luciano-almenares/''),
         (lit ''repository_link'', repository_link),
         (lit ''action_run_link'', action_run_link)])"

text \<open>Lines 65 to 79: the body, its signature and the request.\<close>

definition main_request :: "str \<times> str \<times> str \<Rightarrow> datetime \<Rightarrow> request result" where
  "main_request cfg now =
     (let body_str = json_dumps (main_payload cfg now)
      in case utf8_encode body_str of
           None \<Rightarrow> Raise UnicodeEncodeError
         | Some body_bytes \<Rightarrow>
             (case utf8_encode SIGNING_SECRET of
                None \<Rightarrow> Raise UnicodeEncodeError
              | Some key \<Rightarrow>
                  let digest = hexdigest (hmac_sha256 key body_bytes);
                      signature = lit ''sha256='' @ digest
                  in Return \<lparr>full_url = B12_ENDPOINT, data = body_bytes, http_method = lit ''POST'',
                             headers = [(lit ''Content-Type'', lit ''application/json''),
                                        (lit ''X-Signature-256'', signature)]\<rparr>))"

text \<open>
  Lines 81 to 106. The result is the text written to standard output when \<open>main\<close>
  returns; \<open>SysExit\<close> carries the exit status and the text written to the error stream.
  \<open>json.loads\<close> may raise a \<open>ValueError\<close> or a \<open>RecursionError\<close>, and \<open>print\<close> a
  \<open>UnicodeEncodeError\<close>: none of them is caught.
\<close>

definition main_response ::
  "(json \<Rightarrow> str) \<Rightarrow> error_handler \<Rightarrow> urlopen_result \<Rightarrow> str result" where
  "main_response rp h r =
     bind
       (case r of
          Response status raw \<Rightarrow>
            (case utf8_decode raw of
               Inl err \<Rightarrow> SysExit 1 (print_line (lit ''Request failed: '' @ str_decode_error err))
             | Inr resp_body \<Rightarrow>
                 if status \<noteq> 200 then
                   SysExit 1 (print_line (lit ''HTTP '' @ decimal status @ lit '': '' @ resp_body))
                 else Return resp_body)
        | HTTPError code raw \<Rightarrow>
            SysExit 1 (print_line (lit ''HTTPError '' @ decimal code @ lit '': '' @
                                   utf8_decode_replace raw))
        | OtherException msg \<Rightarrow> SysExit 1 (print_line (lit ''Request failed: '' @ msg)))
       (\<lambda>resp_body.
          case json_loads resp_body of
            DecodeError \<Rightarrow> SysExit 1 (print_line (lit ''Non-JSON response: '' @ resp_body))
          | Raises ex \<Rightarrow> Raise ex
          | OutOfFuel \<Rightarrow> Raise RecursionError
          | Parsed data_ _ \<Rightarrow>
              bind (py_get data_ (lit ''receipt'')) (\<lambda>receipt.
              bind (py_get data_ (lit ''success'')) (\<lambda>success.
                if \<not> truthy success \<or> \<not> truthy receipt then
                  SysExit 1 (print_line (lit ''Unexpected response: '' @ resp_body))
                else print_stdout h (py_str rp receipt))))"

definition main :: "world \<Rightarrow> str result" where
  "main w =
     bind (main_config (environ w)) (\<lambda>cfg.
     bind (main_request cfg (utc_now w)) (\<lambda>req.
     main_response (repr w) (stdout_errors w) (urlopen (network w) req 30)))"

text \<open>
  What the process shows: its exit status, and the texts on standard output and on the
  error stream. An uncaught exception ends the process with status 1 and a traceback,
  whose text is not modelled.
\<close>

fun exit_status :: "str result \<Rightarrow> nat" where
  "exit_status (Return out) = 0"
| "exit_status (SysExit code err) = code"
| "exit_status (Raise ex) = 1"

fun stdout_text :: "str result \<Rightarrow> str" where
  "stdout_text (Return out) = out"
| "stdout_text (SysExit code err) = []"
| "stdout_text (Raise ex) = []"

fun stderr_text :: "str result \<Rightarrow> str option" where
  "stderr_text (Return out) = Some []"
| "stderr_text (SysExit code err) = Some err"
| "stderr_text (Raise ex) = None"

text \<open>
  The shape \<open>YYYY-MM-DDTHH:MM:SS.mmmZ\<close> as a pattern: \<open>9\<close> stands for any decimal
  digit, every other character for itself.
\<close>

fun matches_pattern :: "string \<Rightarrow> str \<Rightarrow> bool" where
  "matches_pattern [] [] = True"
| "matches_pattern (p # ps) (c # cs) =
     ((if p = CHR ''9'' then 48 \<le> c \<and> c \<le> 57 else c = of_char p) \<and> matches_pattern ps cs)"
| "matches_pattern _ _ = False"

text \<open>
  The order in which the specification resolves the repository link: the override, else
  the link derived from the server and the repository slug, else the fallback variable.
\<close>

definition repository_link_spec :: "env \<Rightarrow> str option" where
  "repository_link_spec e =
     (if strip (getenv e (lit ''B12_REPOSITORY_LINK'') []) \<noteq> [] then
        Some (strip (getenv e (lit ''B12_REPOSITORY_LINK'') []))
      else if strip (getenv e (lit ''GITHUB_REPOSITORY'') []) \<noteq> [] then
        Some (rstrip (lit ''/'') (getenv e (lit ''GITHUB_SERVER_URL'') (lit ''https://github.com'')) @
              lit ''/'' @ strip (getenv e (lit ''GITHUB_REPOSITORY'') []))
      else if strip (getenv e (lit ''REPOSITORY_LINK'') []) \<noteq> [] then
        Some (strip (getenv e (lit ''REPOSITORY_LINK'') []))
      else None)"

text \<open>
  The texts that \<open>str.encode("utf-8")\<close> accepts: code points of Unicode, none of them
  a surrogate.
\<close>

definition encodable :: "str \<Rightarrow> bool" where
  "encodable s \<longleftrightarrow> (\<forall>c\<in>set s. c < 0x110000 \<and> \<not> (0xD800 \<le> c \<and> c \<le> 0xDFFF))"

section \<open>A mocked endpoint\<close>

text \<open>
  A world for concrete runs: an environment as a GitHub runner sets it, a fixed instant,
  an endpoint that gives the same answer to every request, and a standard output with
  the strict error handler.
\<close>

definition mock_env :: env where
  "mock_env = [lit ''B12_EMAIL'' \<mapsto> lit ''a@b.c'', lit ''GITHUB_REPOSITORY'' \<mapsto> lit ''o/r'',
               lit ''GITHUB_RUN_ID'' \<mapsto> lit ''7'']"

definition mock_now :: datetime where
  "mock_now = \<lparr>year = 2024, month = 2, day = 9, hour = 7, minute = 5, second = 59,
               microsecond = 678999\<rparr>"

definition mock_world :: "transport \<Rightarrow> world" where
  "mock_world answer =
     \<lparr>environ = mock_env, utc_now = mock_now, network = (\<lambda>req timeout. answer),
      repr = (\<lambda>v. []), stdout_errors = Strict\<rparr>"

section \<open>Properties of the library functions\<close>

declare py_replace.simps [simp del] decimal.simps [simp del]

lemma decimal_digits: "c \<in> set (decimal n) \<Longrightarrow> 48 \<le> c \<and> c \<le> 57"
proof (induction n rule: decimal.induct)
  case (1 n)
  show ?case
  proof (cases "n < 10")
    case True
    with "1.prems" show ?thesis by (simp add: decimal.simps [of n])
  next
    case False
    with "1.prems" "1.IH" show ?thesis
      by (auto simp add: decimal.simps [of n])
  qed
qed

lemma decimal_length: "n < 10 ^ k \<Longrightarrow> 0 < k \<Longrightarrow> length (decimal n) \<le> k"
proof (induction n arbitrary: k rule: decimal.induct)
  case (1 n)
  show ?case
  proof (cases "n < 10")
    case True
    with "1.prems" show ?thesis by (simp add: decimal.simps [of n])
  next
    case False
    then obtain j where k: "k = Suc j" using "1.prems" by (cases k) auto
    from False "1.prems" k have "0 < j" by (cases j) auto
    moreover from "1.prems" k have "n div 10 < 10 ^ j"
      by (simp add: less_mult_imp_div_less mult.commute)
    ultimately have "length (decimal (n div 10)) \<le> j" using "1.IH" [OF False] by blast
    with False k show ?thesis by (simp add: decimal.simps [of n])
  qed
qed

lemma zpad_length: "n < 10 ^ w \<Longrightarrow> 0 < w \<Longrightarrow> length (zpad w n) = w"
  using decimal_length [of n w] by (simp add: zpad_def)

lemma zpad_digits: "c \<in> set (zpad w n) \<Longrightarrow> 48 \<le> c \<and> c \<le> 57"
  using decimal_digits [of c n] by (auto simp add: zpad_def)

lemma py_replace_skip:
  "a \<notin> set xs \<Longrightarrow> py_replace (a # old) new (xs @ ys) = xs @ py_replace (a # old) new ys"
proof (induction xs)
  case Nil
  then show ?case by simp
next
  case (Cons x xs)
  then show ?case by (simp add: py_replace.simps [of "a # old" new "x # xs @ ys"])
qed

lemma py_replace_offset: "py_replace (lit ''+00:00'') (lit ''Z'') (lit ''+00:00'') = lit ''Z''"
  by (simp add: lit_def py_replace.simps)

section \<open>The timestamp\<close>

lemma iso8601_utc_now_ms_eq:
  "iso8601_utc_now_ms now =
     zpad 4 (year now) @ lit ''-'' @ zpad 2 (month now) @ lit ''-'' @ zpad 2 (day now) @ lit ''T'' @
     zpad 2 (hour now) @ lit '':'' @ zpad 2 (minute now) @ lit '':'' @ zpad 2 (second now) @
     lit ''.'' @ zpad 3 (microsecond now div 1000) @ lit ''Z''"
proof -
  let ?pre = "zpad 4 (year now) @ lit ''-'' @ zpad 2 (month now) @ lit ''-'' @ zpad 2 (day now) @
     lit ''T'' @ zpad 2 (hour now) @ lit '':'' @ zpad 2 (minute now) @ lit '':'' @
     zpad 2 (second now) @ lit ''.'' @ zpad 3 (microsecond now div 1000)"
  have "43 \<notin> set ?pre"
    using zpad_digits [of 43] by (auto simp add: lit_def)
  then have "py_replace (43 # lit ''00:00'') (lit ''Z'') (?pre @ lit ''+00:00'')
      = ?pre @ py_replace (43 # lit ''00:00'') (lit ''Z'') (lit ''+00:00'')"
    by (rule py_replace_skip)
  moreover have "43 # lit ''00:00'' = lit ''+00:00''" by (simp add: lit_def)
  ultimately show ?thesis
    by (simp add: iso8601_utc_now_ms_def isoformat_ms_def py_replace_offset)
qed

lemma iso8601_utc_now_ms_no_plus: "43 \<notin> set (iso8601_utc_now_ms now)"
  unfolding iso8601_utc_now_ms_eq using zpad_digits [of 43] by (auto simp add: lit_def)

lemma matches_pattern_append:
  "matches_pattern ps xs \<Longrightarrow> matches_pattern qs ys \<Longrightarrow> matches_pattern (ps @ qs) (xs @ ys)"
  by (induction ps xs rule: matches_pattern.induct) auto

lemma matches_pattern_digits:
  "length xs = w \<Longrightarrow> (\<And>c. c \<in> set xs \<Longrightarrow> 48 \<le> c \<and> c \<le> 57) \<Longrightarrow>
   matches_pattern (replicate w CHR ''9'') xs"
  by (induction xs arbitrary: w) auto

lemma matches_pattern_zpad:
  "n < 10 ^ w \<Longrightarrow> 0 < w \<Longrightarrow> matches_pattern (replicate w CHR ''9'') (zpad w n)"
  by (rule matches_pattern_digits) (simp_all add: zpad_length zpad_digits)

lemma matches_pattern_lit: "CHR ''9'' \<notin> set p \<Longrightarrow> matches_pattern p (lit p)"
  by (induction p) (auto simp add: lit_def)

lemma iso8601_utc_now_ms_pattern:
  assumes v: "valid_datetime now"
  shows "matches_pattern ''9999-99-99T99:99:99.999Z'' (iso8601_utc_now_ms now)"
proof -
  have p: "''9999-99-99T99:99:99.999Z'' =
      replicate 4 CHR ''9'' @ ''-'' @ replicate 2 CHR ''9'' @ ''-'' @ replicate 2 CHR ''9'' @ ''T'' @
      replicate 2 CHR ''9'' @ '':'' @ replicate 2 CHR ''9'' @ '':'' @ replicate 2 CHR ''9'' @ ''.'' @
      replicate 3 CHR ''9'' @ ''Z''"
    by (simp add: numeral_eq_Suc)
  from v have b: "year now < 10 ^ 4" "month now < 10 ^ 2" "day now < 10 ^ 2" "hour now < 10 ^ 2"
    "minute now < 10 ^ 2" "second now < 10 ^ 2" "microsecond now div 1000 < 10 ^ 3"
    by (auto simp add: valid_datetime_def less_mult_imp_div_less)
  show ?thesis
    unfolding iso8601_utc_now_ms_eq p
    by (intro matches_pattern_append matches_pattern_zpad matches_pattern_lit b) simp_all
qed

text \<open>
  C8. Whatever instant the clock returns, the timestamp is the date and time of that
  instant with the microseconds cut down (not rounded) to whole milliseconds; it has the
  shape \<open>YYYY-MM-DDTHH:MM:SS.mmmZ\<close>, ends with the letter \<open>Z\<close>, and the offset
  \<open>+00:00\<close> occurs nowhere in it.
\<close>

theorem C8_timestamp_format:
  assumes "valid_datetime now"
  shows "iso8601_utc_now_ms now =
           zpad 4 (year now) @ lit ''-'' @ zpad 2 (month now) @ lit ''-'' @ zpad 2 (day now) @
           lit ''T'' @ zpad 2 (hour now) @ lit '':'' @ zpad 2 (minute now) @ lit '':'' @
           zpad 2 (second now) @ lit ''.'' @ zpad 3 (microsecond now div 1000) @ lit ''Z'' \<and>
         matches_pattern ''9999-99-99T99:99:99.999Z'' (iso8601_utc_now_ms now) \<and>
         \<not> sublist (lit ''+00:00'') (iso8601_utc_now_ms now)"
proof -
  have "\<not> sublist (lit ''+00:00'') (iso8601_utc_now_ms now)"
  proof
    assume "sublist (lit ''+00:00'') (iso8601_utc_now_ms now)"
    then obtain ps ss where "iso8601_utc_now_ms now = ps @ lit ''+00:00'' @ ss"
      by (auto simp add: sublist_def)
    then have "43 \<in> set (iso8601_utc_now_ms now)" by (simp add: lit_def)
    with iso8601_utc_now_ms_no_plus show False by blast
  qed
  with iso8601_utc_now_ms_eq [of now] iso8601_utc_now_ms_pattern [OF assms] show ?thesis
    by blast
qed

theorem C8_timestamp_format_witness:
  "valid_datetime \<lparr>year = 2024, month = 2, day = 9, hour = 7, minute = 5, second = 59,
                   microsecond = 678999\<rparr> \<and>
   iso8601_utc_now_ms \<lparr>year = 2024, month = 2, day = 9, hour = 7, minute = 5, second = 59,
                       microsecond = 678999\<rparr> = lit ''2024-02-09T07:05:59.678Z''"
proof -
  let ?d = "\<lparr>year = 2024, month = 2, day = 9, hour = 7, minute = 5, second = 59,
             microsecond = 678999\<rparr>"
  have v: "valid_datetime ?d" by (simp add: valid_datetime_def)
  from C8_timestamp_format [OF v] v show ?thesis
    by (simp add: zpad_def decimal.simps lit_def)
qed

lemma bind_Return [simp]: "bind (Return x) f = f x"
  and bind_SysExit [simp]: "bind (SysExit c e) f = SysExit c e"
  and bind_Raise [simp]: "bind (Raise ex) f = Raise ex"
  by (simp_all add: bind_def)

lemma lit_append: "lit (a @ b) = lit a @ lit b"
  by (simp add: lit_def)

lemma required_env_blank:
  "strip (getenv e name []) = [] \<Longrightarrow>
   required_env e name = SysExit 2 (print_line (lit ''Missing required environment variable: '' @ name))"
  by (simp add: required_env_def)

lemma required_env_set:
  "strip (getenv e name []) \<noteq> [] \<Longrightarrow> required_env e name = Return (strip (getenv e name []))"
  by (simp add: required_env_def Let_def)

section \<open>Configuration errors\<close>

text \<open>
  C4. When \<open>B12_EMAIL\<close> is not in the environment, or its value is empty once the white
  space around it is stripped, \<open>main\<close> exits with status 2, and the text it has written
  to the error stream names \<open>B12_EMAIL\<close>.
\<close>

theorem C4_missing_email:
  assumes "case environ w (lit ''B12_EMAIL'') of None \<Rightarrow> True | Some v \<Rightarrow> strip v = []"
  shows "main w = SysExit 2 (print_line (lit ''Missing required environment variable: B12_EMAIL'')) \<and>
         exit_status (main w) = 2 \<and>
         (\<exists>t. stderr_text (main w) = Some t \<and> sublist (lit ''B12_EMAIL'') t)"
proof -
  from assms have "strip (getenv (environ w) (lit ''B12_EMAIL'') []) = []"
    by (simp add: getenv_def strip_def split: option.splits)
  then have m: "main w = SysExit 2 (print_line (lit ''Missing required environment variable: '' @ lit ''B12_EMAIL''))"
    by (simp add: main_def main_config_def required_env_blank)
  have e: "print_line (lit ''Missing required environment variable: B12_EMAIL'') =
      lit ''Missing required environment variable: '' @ lit ''B12_EMAIL'' @ [10]"
    by (simp add: print_line_def lit_def)
  have s: "sublist (lit ''B12_EMAIL'') (print_line (lit ''Missing required environment variable: B12_EMAIL''))"
    unfolding e by (rule sublist_appendI)
  from m e have "main w = SysExit 2 (print_line (lit ''Missing required environment variable: B12_EMAIL''))"
    by (simp add: print_line_def)
  with s show ?thesis by simp
qed

theorem C4_missing_email_witness:
  "main \<lparr>environ = Map.empty, utc_now = \<lparr>year = 2024, month = 1, day = 1, hour = 0, minute = 0, second = 0, microsecond = 0\<rparr>,
         network = (\<lambda>req t. Failed []), repr = (\<lambda>v. []),
         stdout_errors = Strict\<rparr>
     = SysExit 2 (print_line (lit ''Missing required environment variable: B12_EMAIL'')) \<and>
   main \<lparr>environ = [lit ''B12_EMAIL'' \<mapsto> lit ''  ''], utc_now = \<lparr>year = 2024, month = 1, day = 1, hour = 0, minute = 0, second = 0, microsecond = 0\<rparr>,
         network = (\<lambda>req t. Failed []), repr = (\<lambda>v. []),
         stdout_errors = Strict\<rparr>
     = SysExit 2 (print_line (lit ''Missing required environment variable: B12_EMAIL''))"
  using C4_missing_email [of "\<lparr>environ = Map.empty, utc_now = \<lparr>year = 2024, month = 1, day = 1, hour = 0, minute = 0, second = 0, microsecond = 0\<rparr>,
         network = (\<lambda>req t. Failed []), repr = (\<lambda>v. []),
         stdout_errors = Strict\<rparr>"]
    C4_missing_email [of "\<lparr>environ = [lit ''B12_EMAIL'' \<mapsto> lit ''  ''], utc_now = \<lparr>year = 2024, month = 1, day = 1, hour = 0, minute = 0, second = 0, microsecond = 0\<rparr>,
         network = (\<lambda>req t. Failed []), repr = (\<lambda>v. []),
         stdout_errors = Strict\<rparr>"]
  by (simp add: strip_def isspace_def lit_def)

section \<open>The repository link\<close>

lemma main_repository_link_spec:
  "main_repository_link e =
     (case repository_link_spec e of
        Some link \<Rightarrow> Return link
      | None \<Rightarrow> SysExit 2 (print_line (lit ''Missing required environment variable: REPOSITORY_LINK'')))"
  by (simp add: main_repository_link_def github_repo_link_def repository_link_spec_def
      required_env_def Let_def lit_def)

lemma main_config_repository_link:
  assumes "main_config e = Return (email, repository_link, action_run_link)"
  shows "repository_link_spec e = Some repository_link"
  using assms unfolding main_config_def main_repository_link_spec
  by (auto simp add: bind_def split: result.splits option.splits)

lemma main_exit_no_repository_link:
  assumes "repository_link_spec (environ w) = None"
  shows "exit_status (main w) = 2"
  using assms unfolding main_def main_config_def main_repository_link_spec
  by (auto simp add: bind_def required_env_def Let_def split: result.splits)

text \<open>
  C7. The repository link is the stripped value of \<open>B12_REPOSITORY_LINK\<close> when that is
  not blank; else the server URL (\<open>GITHUB_SERVER_URL\<close>, by default
  \<open>https://github.com\<close>, without trailing slashes), a slash and the slug
  \<open>GITHUB_REPOSITORY\<close> when the slug is not blank; else the stripped value of
  \<open>REPOSITORY_LINK\<close>. With none of the three, \<open>main\<close> exits with status 2.
\<close>

theorem C7_repository_link_order:
  "main_repository_link (environ w) =
     (case repository_link_spec (environ w) of
        Some link \<Rightarrow> Return link
      | None \<Rightarrow> SysExit 2 (print_line (lit ''Missing required environment variable: REPOSITORY_LINK''))) \<and>
   (\<forall>email repository_link action_run_link.
      main_config (environ w) = Return (email, repository_link, action_run_link) \<longrightarrow>
      repository_link_spec (environ w) = Some repository_link) \<and>
   (repository_link_spec (environ w) = None \<longrightarrow> exit_status (main w) = 2)"
  using main_repository_link_spec [of "environ w"] main_config_repository_link [of "environ w"]
    main_exit_no_repository_link [of w]
  by blast


theorem C7_repository_link_order_witness:
  "main_config
     [lit ''B12_EMAIL'' \<mapsto> lit '' a@b.c '', lit ''B12_REPOSITORY_LINK'' \<mapsto> lit ''  '',
      lit ''GITHUB_SERVER_URL'' \<mapsto> lit ''https://github.com/'',
      lit ''GITHUB_REPOSITORY'' \<mapsto> lit ''o/r'', lit ''GITHUB_RUN_ID'' \<mapsto> lit ''7'']
     = Return (lit ''a@b.c'', lit ''https://github.com/o/r'',
               lit ''https://github.com/o/r/actions/runs/7'') \<and>
   repository_link_spec
     [lit ''B12_EMAIL'' \<mapsto> lit '' a@b.c '', lit ''B12_REPOSITORY_LINK'' \<mapsto> lit ''  '',
      lit ''GITHUB_SERVER_URL'' \<mapsto> lit ''https://github.com/'',
      lit ''GITHUB_REPOSITORY'' \<mapsto> lit ''o/r'', lit ''GITHUB_RUN_ID'' \<mapsto> lit ''7'']
     = Some (lit ''https://github.com/o/r'') \<and>
   repository_link_spec [lit ''B12_EMAIL'' \<mapsto> lit ''a@b.c''] = None \<and>
   exit_status (main \<lparr>environ = [lit ''B12_EMAIL'' \<mapsto> lit ''a@b.c''],
                       utc_now = \<lparr>year = 2024, month = 1, day = 1, hour = 0, minute = 0,
                                  second = 0, microsecond = 0\<rparr>,
                       network = (\<lambda>req t. Failed []), repr = (\<lambda>v. []),
         stdout_errors = Strict\<rparr>) = 2"
proof -
  let ?e = "[lit ''B12_EMAIL'' \<mapsto> lit '' a@b.c '', lit ''B12_REPOSITORY_LINK'' \<mapsto> lit ''  '',
      lit ''GITHUB_SERVER_URL'' \<mapsto> lit ''https://github.com/'',
      lit ''GITHUB_REPOSITORY'' \<mapsto> lit ''o/r'', lit ''GITHUB_RUN_ID'' \<mapsto> lit ''7'']"
  let ?w = "\<lparr>environ = ?e, utc_now = \<lparr>year = 2024, month = 1, day = 1, hour = 0, minute = 0,
                                  second = 0, microsecond = 0\<rparr>,
                       network = (\<lambda>req t. Failed []), repr = (\<lambda>v. []),
         stdout_errors = Strict\<rparr>"
  let ?w1 = "\<lparr>environ = [lit ''B12_EMAIL'' \<mapsto> lit ''a@b.c''],
                       utc_now = \<lparr>year = 2024, month = 1, day = 1, hour = 0, minute = 0,
                                  second = 0, microsecond = 0\<rparr>,
                       network = (\<lambda>req t. Failed []), repr = (\<lambda>v. []),
         stdout_errors = Strict\<rparr>"
  have c: "main_config ?e = Return (lit ''a@b.c'', lit ''https://github.com/o/r'',
               lit ''https://github.com/o/r/actions/runs/7'')"
    by (simp add: main_config_def main_repository_link_def main_action_run_link_def
        github_repo_link_def github_action_run_link_def required_env_def getenv_def strip_def
        rstrip_def isspace_def lit_def Let_def bind_def)
  have n: "repository_link_spec [lit ''B12_EMAIL'' \<mapsto> lit ''a@b.c''] = None"
    by (simp add: repository_link_spec_def getenv_def strip_def lit_def)
  from C7_repository_link_order [of ?w] C7_repository_link_order [of ?w1] c n
  show ?thesis by simp
qed

section \<open>The payload and its signature\<close>

lemma payload_sorted:
  "sort_key fst (main_payload (email, repository_link, action_run_link) now) =
     [(lit ''action_run_link'', action_run_link), (lit ''email'', email),
      (lit ''name'', lit ''Luciano Almenares''), (lit ''repository_link'', repository_link),
      (lit ''resume_link'', lit ''https://www.linkedin.com/in/luciano-almenares/''),
      (lit ''timestamp'', iso8601_utc_now_ms now)]"
  by (simp add: main_payload_def lit_def)



lemma escape_char_plain: "32 \<le> c \<Longrightarrow> c \<noteq> 34 \<Longrightarrow> c \<noteq> 92 \<Longrightarrow> escape_char c = [c]"
  by (simp add: escape_char_def)

lemma concat_escape_plain:
  "(\<And>c. c \<in> set s \<Longrightarrow> 32 \<le> c \<and> c \<noteq> 34 \<and> c \<noteq> 92) \<Longrightarrow> concat (map escape_char s) = s"
  by (induction s) (simp_all add: escape_char_plain)

lemma encode_basestring_plain:
  "(\<And>c. c \<in> set s \<Longrightarrow> 32 \<le> c \<and> c \<noteq> 34 \<and> c \<noteq> 92) \<Longrightarrow> encode_basestring s = [34] @ s @ [34]"
  by (simp add: encode_basestring_def concat_escape_plain)

lemma timestamp_plain:
  "c \<in> set (iso8601_utc_now_ms now) \<Longrightarrow> 32 \<le> c \<and> c \<noteq> 34 \<and> c \<noteq> 92 \<and> c < 128"
  unfolding iso8601_utc_now_ms_eq by (auto simp add: lit_def dest!: zpad_digits)

lemma encode_basestring_timestamp:
  "encode_basestring (iso8601_utc_now_ms now) = [34] @ iso8601_utc_now_ms now @ [34]"
  using timestamp_plain by (intro encode_basestring_plain) blast

lemma encode_basestring_keys:
  \<open>encode_basestring (lit ''action_run_link'') = lit ''"action_run_link"''\<close>
  \<open>encode_basestring (lit ''email'') = lit ''"email"''\<close>
  \<open>encode_basestring (lit ''name'') = lit ''"name"''\<close>
  \<open>encode_basestring (lit ''repository_link'') = lit ''"repository_link"''\<close>
  \<open>encode_basestring (lit ''resume_link'') = lit ''"resume_link"''\<close>
  \<open>encode_basestring (lit ''timestamp'') = lit ''"timestamp"''\<close>
  \<open>encode_basestring (lit ''Luciano Almenares'') = lit ''"Luciano Almenares"''\<close>
  \<open>encode_basestring (lit ''https://www.linkedin.com/in/luciano-almenares/'') =
      lit ''"https://www.linkedin.com/in/luciano-almenares/"''\<close>
  by (simp_all add: encode_basestring_def escape_char_def lit_def)

lemma json_dumps_payload:
  \<open>json_dumps (main_payload (email, repository_link, action_run_link) now) =
     lit ''{"action_run_link":'' @ encode_basestring action_run_link @
     lit '',"email":'' @ encode_basestring email @
     lit '',"name":"Luciano Almenares","repository_link":'' @ encode_basestring repository_link @
     lit '',"resume_link":"https://www.linkedin.com/in/luciano-almenares/","timestamp":"'' @
     iso8601_utc_now_ms now @ lit ''"}''\<close>
  unfolding json_dumps_def payload_sorted
  by (simp add: encode_basestring_keys encode_basestring_timestamp) (simp add: lit_def)


lemma encodable_simps [simp]:
  "encodable []"
  "encodable (c # s) \<longleftrightarrow> (c < 0x110000 \<and> \<not> (0xD800 \<le> c \<and> c \<le> 0xDFFF)) \<and> encodable s"
  "encodable (s @ t) \<longleftrightarrow> encodable s \<and> encodable t"
  by (auto simp add: encodable_def)

lemma encodable_ascii: "(\<And>c. c \<in> set s \<Longrightarrow> c < 128) \<Longrightarrow> encodable s"
  by (fastforce simp add: encodable_def)

lemma hex_digit_less: "n < 16 \<Longrightarrow> hex_digit n < 128"
  by (simp add: hex_digit_def)

lemma encodable_escape_char:
  "c < 0x110000 \<Longrightarrow> \<not> (0xD800 \<le> c \<and> c \<le> 0xDFFF) \<Longrightarrow> encodable (escape_char c)"
proof -
  assume c: "c < 0x110000" "\<not> (0xD800 \<le> c \<and> c \<le> 0xDFFF)"
  have "hex_digit (c mod 16) < 128"
    using hex_digit_less [of "c mod 16"] by simp
  moreover have "c < 32 \<longrightarrow> hex_digit (c div 16) < 128"
    using hex_digit_less [of "c div 16"] by simp
  ultimately show ?thesis
    using c by (auto simp add: escape_char_def lit_def)
qed

lemma encodable_encode_basestring: "encodable s \<Longrightarrow> encodable (encode_basestring s)"
proof -
  have "encodable s \<Longrightarrow> encodable (concat (map escape_char s))"
    by (induction s) (simp_all add: encodable_escape_char)
  then show "encodable s \<Longrightarrow> encodable (encode_basestring s)"
    by (simp add: encode_basestring_def)
qed

lemma encodable_timestamp: "encodable (iso8601_utc_now_ms now)"
  using timestamp_plain by (intro encodable_ascii) blast

lemma encodable_body:
  assumes "encodable email" "encodable repository_link" "encodable action_run_link"
  shows "encodable (json_dumps (main_payload (email, repository_link, action_run_link) now))"
  unfolding json_dumps_payload
  using assms by (simp add: encodable_encode_basestring encodable_timestamp) (simp add: lit_def)

lemma utf8_encode_encodable: "encodable s \<Longrightarrow> \<exists>bs. utf8_encode s = Some bs"
  by (induction s) (auto simp add: utf8_encode_char_def)

lemma utf8_encode_Some_encodable: "utf8_encode s = Some bs \<Longrightarrow> encodable s"
  by (induction s arbitrary: bs) (auto simp add: utf8_encode_char_def split: option.splits if_splits)

lemma utf8_encode_secret:
  "utf8_encode SIGNING_SECRET =
     Some [104, 101, 108, 108, 111, 45, 116, 104, 101, 114, 101, 45, 102, 114, 111, 109, 45, 98, 49, 50]"
  by (simp add: SIGNING_SECRET_def lit_def utf8_encode_char_def)

lemma main_request_Return:
  assumes "utf8_encode (json_dumps (main_payload cfg now)) = Some body_bytes"
  shows "main_request cfg now =
     Return \<lparr>full_url = B12_ENDPOINT, data = body_bytes, http_method = lit ''POST'',
             headers = [(lit ''Content-Type'', lit ''application/json''),
                        (lit ''X-Signature-256'',
                         lit ''sha256='' @
                         hexdigest (hmac_sha256
                           [104, 101, 108, 108, 111, 45, 116, 104, 101, 114, 101, 45, 102, 114, 111,
                            109, 45, 98, 49, 50] body_bytes))]\<rparr>"
  using assms by (simp add: main_request_def utf8_encode_secret Let_def)

















section \<open>The response\<close>

declare utf8_decode_from.simps [simp del] utf8_decode_replace_from.simps [simp del]
  scanstring.simps [simp del]

lemma main_sends:
  assumes "main_config (environ w) = Return cfg" and "main_request cfg (utc_now w) = Return req"
  shows "main w = main_response (repr w) (stdout_errors w) (urlopen (network w) req 30)"
  using assms by (simp add: main_def)

lemma decimal_500: "decimal 500 = lit ''500''"
  by (simp add: decimal.simps lit_def)

lemma utf8_step_ascii: "c < 128 \<Longrightarrow> utf8_step (c # bs) = Decoded c 0"
  by (simp add: utf8_step_def)

lemma utf8_decode_from_ascii:
  "\<forall>c\<in>set s. c < 128 \<Longrightarrow> utf8_decode_from pos s = Inr s"
proof (induction s arbitrary: pos)
  case Nil
  show ?case by (simp add: utf8_decode_from.simps)
next
  case (Cons c s)
  then have "utf8_decode_from (pos + 1) s = Inr s" by simp
  moreover from Cons.prems have "c < 128" by simp
  ultimately show ?case
    by (simp add: utf8_decode_from.simps [of pos "c # s"] utf8_step_ascii)
qed

lemma map_unat_ascii:
  "\<forall>c\<in>set s. c < 128 \<Longrightarrow> map unat (map of_nat s :: bytes) = s"
  by (induction s) (simp_all add: unat_of_nat)

lemma utf8_decode_ascii:
  "\<forall>c\<in>set s. c < 128 \<Longrightarrow> utf8_decode (map of_nat s) = Inr s"
  unfolding utf8_decode_def by (simp only: map_unat_ascii utf8_decode_from_ascii)

lemma utf8_decode_replace_valid:
  "utf8_decode_from pos bs = Inr s \<Longrightarrow> utf8_decode_replace_from bs = s"
proof (induction pos bs arbitrary: s rule: utf8_decode_from.induct)
  case (1 pos bs)
  show ?case
  proof (cases "bs = []")
    case True
    with "1.prems" show ?thesis
      by (simp add: utf8_decode_from.simps [of pos "[]"] utf8_decode_replace_from.simps [of "[]"])
  next
    case False
    with "1.prems" obtain c k t where st: "utf8_step bs = Decoded c k"
      and t: "utf8_decode_from (pos + Suc k) (drop (Suc k) bs) = Inr t" and s: "s = c # t"
      by (auto simp add: utf8_decode_from.simps [of pos bs] split: decode_step.splits sum.splits)
    from "1.IH" [OF False st t] have "utf8_decode_replace_from (drop (Suc k) bs) = t" .
    with False st s show ?thesis
      by (simp add: utf8_decode_replace_from.simps [of bs])
  qed
qed

lemma max_nesting_Suc: "max_nesting = Suc 993"
  by (simp add: max_nesting_def)

lemma scanstring_success:
  \<open>scanstring (lit ''success": true, "receipt": "abc123"}'') =
     Some (lit ''success'', lit '': true, "receipt": "abc123"}'')\<close>
  by (simp add: scanstring.simps lit_def cons_char_def)

lemma loads_success_body_fuel:
  \<open>scan_once (Suc (Suc (Suc (Suc n)))) (Suc d) (lit ''{"success": true, "receipt": "abc123"}'') =
     Parsed (JObject [(lit ''success'', JBool True), (lit ''receipt'', JString (lit ''abc123''))]) []\<close>
  by (simp add: scanstring.simps lit_def cons_char_def skip_ws_def is_ws_def)


lemma loads_success_body:
  \<open>json_loads (lit ''{"success": true, "receipt": "abc123"}'') =
     Parsed (JObject [(lit ''success'', JBool True), (lit ''receipt'', JString (lit ''abc123''))]) []\<close>
proof -
  have f: \<open>2 * length (lit ''{"success": true, "receipt": "abc123"}'') + 2 = Suc (Suc (Suc (Suc 74)))\<close>
    by (simp add: lit_def)
  have w: \<open>skip_ws (lit ''{"success": true, "receipt": "abc123"}'') =
      lit ''{"success": true, "receipt": "abc123"}''\<close>
    by (simp add: skip_ws_def is_ws_def lit_def)
  have n: \<open>lit ''{"success": true, "receipt": "abc123"}'' \<noteq> [] \<and>
      hd (lit ''{"success": true, "receipt": "abc123"}'') \<noteq> 0xFEFF\<close>
    by (simp add: lit_def)
  show ?thesis
    unfolding json_loads_def f w max_nesting_Suc loads_success_body_fuel
    using n by (simp add: skip_ws_def)
qed


lemma urlopen_Responded:
  "network w req t = Responded status body \<Longrightarrow>
   urlopen (network w) req t =
     (if 200 \<le> status \<and> status < 300 then Response status body else HTTPError status body)"
  by (simp add: urlopen_def)

lemma main_response_HTTPError:
  "main_response rp h (HTTPError code raw) =
     SysExit 1 (print_line (lit ''HTTPError '' @ decimal code @ lit '': '' @ utf8_decode_replace raw))"
  by (simp add: main_response_def)

lemma main_response_not_200:
  "status \<noteq> 200 \<Longrightarrow>
   main_response rp h (Response status raw) =
     SysExit 1 (print_line
       (case utf8_decode raw of
          Inr resp_body \<Rightarrow> lit ''HTTP '' @ decimal status @ lit '': '' @ resp_body
        | Inl err \<Rightarrow> lit ''Request failed: '' @ str_decode_error err))"
  by (simp add: main_response_def split: sum.splits)

lemma main_response_200:
  "utf8_decode raw = Inr resp_body \<Longrightarrow>
   main_response rp h (Response 200 raw) =
     (case json_loads resp_body of
        DecodeError \<Rightarrow> SysExit 1 (print_line (lit ''Non-JSON response: '' @ resp_body))
      | Raises ex \<Rightarrow> Raise ex
      | OutOfFuel \<Rightarrow> Raise RecursionError
      | Parsed data_ rest \<Rightarrow>
          bind (py_get data_ (lit ''receipt'')) (\<lambda>receipt.
          bind (py_get data_ (lit ''success'')) (\<lambda>success.
            if \<not> truthy success \<or> \<not> truthy receipt then
              SysExit 1 (print_line (lit ''Unexpected response: '' @ resp_body))
            else print_stdout h (py_str rp receipt))))"
  by (simp add: main_response_def)

lemma main_response_object:
  assumes "utf8_decode raw = Inr resp_body" and "json_loads resp_body = Parsed (JObject d) rest"
  shows "main_response rp h (Response 200 raw) =
     (let receipt = (case map_of d (lit ''receipt'') of None \<Rightarrow> JNull | Some v \<Rightarrow> v);
          success = (case map_of d (lit ''success'') of None \<Rightarrow> JNull | Some v \<Rightarrow> v)
      in if \<not> truthy success \<or> \<not> truthy receipt then
           SysExit 1 (print_line (lit ''Unexpected response: '' @ resp_body))
         else print_stdout h (py_str rp receipt))"
  by (simp add: main_response_200 [OF assms(1)] assms(2) py_get_def Let_def)

lemma main_response_not_object:
  assumes "utf8_decode raw = Inr resp_body" and "json_loads resp_body = Parsed v rest"
    and "\<forall>d. v \<noteq> JObject d"
  shows "main_response rp h (Response 200 raw) = Raise AttributeError"
  using assms(3)
  by (cases v) (simp_all add: main_response_200 [OF assms(1)] assms(2) py_get_def)

text \<open>
  C6. When the endpoint answers a request with status 500, \<open>main\<close> exits with status 1
  and the error stream holds \<open>HTTPError 500: \<close> followed by the body, decoded with
  replacement (which is the body's text itself when the body is valid UTF-8).
\<close>

theorem C6_http_500:
  assumes "main_config (environ w) = Return cfg"
    and "main_request cfg (utc_now w) = Return req"
    and "network w req 30 = Responded 500 body"
  shows "main w = SysExit 1 (print_line (lit ''HTTPError 500: '' @ utf8_decode_replace body)) \<and>
         exit_status (main w) = 1 \<and>
         stderr_text (main w) = Some (lit ''HTTPError 500: '' @ utf8_decode_replace body @ [10]) \<and>
         (\<forall>t. utf8_decode body = Inr t \<longrightarrow> utf8_decode_replace body = t)"
proof -
  have "main w = SysExit 1 (print_line (lit ''HTTPError '' @ decimal 500 @ lit '': '' @ utf8_decode_replace body))"
    by (simp add: main_sends [OF assms(1,2)] urlopen_Responded [OF assms(3)] main_response_HTTPError)
  moreover have "lit ''HTTPError '' @ decimal 500 @ lit '': '' @ x = lit ''HTTPError 500: '' @ x"
    for x by (simp add: decimal_500 lit_def)
  ultimately have "main w = SysExit 1 (print_line (lit ''HTTPError 500: '' @ utf8_decode_replace body))"
    by simp
  then show ?thesis
    using utf8_decode_replace_valid [of 0 "map unat body"]
    by (simp add: print_line_def utf8_decode_def utf8_decode_replace_def)
qed

text \<open>
  C9. When the endpoint answers with a status from 201 to 299, \<open>main\<close> exits with
  status 1 after writing a diagnostic to the error stream, whatever the body: \<open>HTTP\<close>,
  the status and the body when the body decodes, the decoding error otherwise.
\<close>

theorem C9_other_2xx_status:
  assumes "main_config (environ w) = Return cfg"
    and "main_request cfg (utc_now w) = Return req"
    and "network w req 30 = Responded status body"
    and "200 \<le> status" and "status < 300" and "status \<noteq> 200"
  shows "main w = SysExit 1 (print_line
           (case utf8_decode body of
              Inr resp_body \<Rightarrow> lit ''HTTP '' @ decimal status @ lit '': '' @ resp_body
            | Inl err \<Rightarrow> lit ''Request failed: '' @ str_decode_error err)) \<and>
         exit_status (main w) = 1"
  using assms(4-6)
  by (simp add: main_sends [OF assms(1,2)] urlopen_Responded [OF assms(3)] main_response_not_200)

text \<open>
  C5. When the configuration resolves, the request is sent and the endpoint answers it
  with status 200 and the body \<open>{"success": true, "receipt": "abc123"}\<close>, \<open>main\<close>
  writes \<open>abc123\<close> and a newline to standard output, nothing to the error stream, and
  returns, so that the exit status is 0.
\<close>

theorem C5_success_prints_receipt:
  assumes "main_config (environ w) = Return cfg"
    and "main_request cfg (utc_now w) = Return req"
    and \<open>network w req 30 =
           Responded 200 (map of_nat (lit ''{"success": true, "receipt": "abc123"}''))\<close>
  shows "main w = Return (lit ''abc123'' @ [10]) \<and> exit_status (main w) = 0 \<and>
         stdout_text (main w) = lit ''abc123'' @ [10] \<and> stderr_text (main w) = Some []"
proof -
  have d: \<open>utf8_decode (map of_nat (lit ''{"success": true, "receipt": "abc123"}'')) =
      Inr (lit ''{"success": true, "receipt": "abc123"}'')\<close>
    by (rule utf8_decode_ascii) (simp add: lit_def)
  have ne: "lit ''receipt'' \<noteq> lit ''success''" by (simp add: lit_def)
  have a: "stdout_accepts h (lit ''abc123'')" for h
    by (simp add: stdout_accepts_def lit_def)
  have "main w = Return (print_line (lit ''abc123''))"
    by (simp add: main_sends [OF assms(1,2)] urlopen_Responded [OF assms(3)]
        main_response_object [OF d loads_success_body] ne py_str_def print_stdout_def a)
      (simp add: lit_def)
  then show ?thesis by (simp add: print_line_def)
qed

lemma main_prints_receipt:
  assumes "main_config (environ w) = Return cfg"
    and "main_request cfg (utc_now w) = Return req"
    and "network w req 30 = Responded 200 body"
    and "utf8_decode body = Inr resp_body"
    and "json_loads resp_body = Parsed (JObject d) rest"
    and "map_of d (lit ''success'') = Some success" and "truthy success"
    and "map_of d (lit ''receipt'') = Some receipt" and "truthy receipt"
  shows "main w = print_stdout (stdout_errors w) (py_str (repr w) receipt)"
  using assms(6-9)
  by (simp add: main_sends [OF assms(1,2)] urlopen_Responded [OF assms(3)]
      main_response_object [OF assms(4,5)])

text \<open>
  C10, amended. For a response with status 200 whose body \<open>json.loads\<close> turns into a
  dictionary, only the truth values of \<open>success\<close> and \<open>receipt\<close> count, not their
  types: when both are true in Python's sense and standard output accepts the text of
  \<open>str(receipt)\<close>, \<open>main\<close> prints that text and returns with exit status 0.
\<close>

theorem C10_truthiness_only:
  assumes "main_config (environ w) = Return cfg"
    and "main_request cfg (utc_now w) = Return req"
    and "network w req 30 = Responded 200 body"
    and "utf8_decode body = Inr resp_body"
    and "json_loads resp_body = Parsed (JObject d) rest"
    and "map_of d (lit ''success'') = Some success" and "truthy success"
    and "map_of d (lit ''receipt'') = Some receipt" and "truthy receipt"
    and "stdout_accepts (stdout_errors w) (py_str (repr w) receipt)"
  shows "main w = Return (print_line (py_str (repr w) receipt)) \<and> exit_status (main w) = 0"
  using assms(10)
  by (simp add: main_prints_receipt [OF assms(1-9)] print_stdout_def)

lemma mock_config:
  "main_config (environ (mock_world answer)) =
     Return (lit ''a@b.c'', lit ''https://github.com/o/r'',
             lit ''https://github.com/o/r/actions/runs/7'')"
  by (simp add: mock_world_def mock_env_def main_config_def main_repository_link_def
      main_action_run_link_def github_repo_link_def github_action_run_link_def required_env_def
      getenv_def strip_def rstrip_def isspace_def lit_def Let_def)

lemma mock_request:
  "\<exists>req. main_request (lit ''a@b.c'', lit ''https://github.com/o/r'',
                         lit ''https://github.com/o/r/actions/runs/7'')
                        (utc_now (mock_world answer)) = Return req"
proof -
  have "encodable (lit ''a@b.c'')" "encodable (lit ''https://github.com/o/r'')"
    "encodable (lit ''https://github.com/o/r/actions/runs/7'')"
    by (simp_all add: lit_def)
  from encodable_body [OF this] utf8_encode_encodable main_request_Return show ?thesis
    by blast
qed

lemma mock_network: "network (mock_world answer) req timeout = answer"
  by (simp add: mock_world_def)

theorem C6_http_500_witness:
  "main (mock_world (Responded 500 (map of_nat (lit ''boom'')))) =
     SysExit 1 (print_line (lit ''HTTPError 500: boom''))"
proof -
  obtain req where r: "main_request (lit ''a@b.c'', lit ''https://github.com/o/r'',
      lit ''https://github.com/o/r/actions/runs/7'')
      (utc_now (mock_world (Responded 500 (map of_nat (lit ''boom''))))) = Return req"
    using mock_request by blast
  have d: "utf8_decode (map of_nat (lit ''boom'')) = Inr (lit ''boom'')"
    by (rule utf8_decode_ascii) (simp add: lit_def)
  from C6_http_500 [OF mock_config r mock_network] d show ?thesis
    by (simp add: lit_def)
qed

theorem C9_other_2xx_status_witness:
  \<open>main (mock_world (Responded 201 (map of_nat (lit ''{"success": true, "receipt": "abc123"}'')))) =
     SysExit 1 (print_line (lit ''HTTP 201: {"success": true, "receipt": "abc123"}''))\<close>
proof -
  obtain req where r: \<open>main_request (lit ''a@b.c'', lit ''https://github.com/o/r'',
      lit ''https://github.com/o/r/actions/runs/7'')
      (utc_now (mock_world (Responded 201
         (map of_nat (lit ''{"success": true, "receipt": "abc123"}''))))) = Return req\<close>
    using mock_request by blast
  have d: \<open>utf8_decode (map of_nat (lit ''{"success": true, "receipt": "abc123"}'')) =
      Inr (lit ''{"success": true, "receipt": "abc123"}'')\<close>
    by (rule utf8_decode_ascii) (simp add: lit_def)
  have "(200::nat) \<le> 201" "(201::nat) < 300" "(201::nat) \<noteq> 200" by simp_all
  from C9_other_2xx_status [OF mock_config r mock_network this] show ?thesis
    by (simp add: d decimal.simps) (simp add: lit_def)
qed

theorem C5_success_prints_receipt_witness:
  \<open>main (mock_world (Responded 200 (map of_nat (lit ''{"success": true, "receipt": "abc123"}'')))) =
     Return (lit ''abc123'' @ [10])\<close>
proof -
  obtain req where r: \<open>main_request (lit ''a@b.c'', lit ''https://github.com/o/r'',
      lit ''https://github.com/o/r/actions/runs/7'')
      (utc_now (mock_world (Responded 200
         (map of_nat (lit ''{"success": true, "receipt": "abc123"}''))))) = Return req\<close>
    using mock_request by blast
  from C5_success_prints_receipt [OF mock_config r mock_network] show ?thesis
    by simp
qed

lemma loads_truthy_body_fuel:
  \<open>scan_once (Suc (Suc (Suc (Suc n)))) (Suc d) (lit ''{"success": "yes", "receipt": 42}'') =
     Parsed (JObject [(lit ''success'', JString (lit ''yes'')), (lit ''receipt'', JInt 42)]) []\<close>
  by (simp add: scanstring.simps lit_def cons_char_def skip_ws_def is_ws_def match_number_def
      match_exponent_def is_digit_def digits_val_def int_max_str_digits_def Let_def)

lemma loads_truthy_body:
  \<open>json_loads (lit ''{"success": "yes", "receipt": 42}'') =
     Parsed (JObject [(lit ''success'', JString (lit ''yes'')), (lit ''receipt'', JInt 42)]) []\<close>
proof -
  have f: \<open>2 * length (lit ''{"success": "yes", "receipt": 42}'') + 2 = Suc (Suc (Suc (Suc 64)))\<close>
    by (simp add: lit_def)
  have w: \<open>skip_ws (lit ''{"success": "yes", "receipt": 42}'') =
      lit ''{"success": "yes", "receipt": 42}''\<close>
    by (simp add: skip_ws_def is_ws_def lit_def)
  have n: \<open>lit ''{"success": "yes", "receipt": 42}'' \<noteq> [] \<and>
      hd (lit ''{"success": "yes", "receipt": 42}'') \<noteq> 0xFEFF\<close>
    by (simp add: lit_def)
  show ?thesis
    unfolding json_loads_def f w max_nesting_Suc loads_truthy_body_fuel
    using n by (simp add: skip_ws_def)
qed

theorem C10_truthiness_only_witness:
  \<open>main (mock_world (Responded 200 (map of_nat (lit ''{"success": "yes", "receipt": 42}'')))) =
     Return (lit ''42'' @ [10])\<close>
proof -
  obtain req where r: \<open>main_request (lit ''a@b.c'', lit ''https://github.com/o/r'',
      lit ''https://github.com/o/r/actions/runs/7'')
      (utc_now (mock_world (Responded 200
         (map of_nat (lit ''{"success": "yes", "receipt": 42}''))))) = Return req\<close>
    using mock_request by blast
  have d: \<open>utf8_decode (map of_nat (lit ''{"success": "yes", "receipt": 42}'')) =
      Inr (lit ''{"success": "yes", "receipt": 42}'')\<close>
    by (rule utf8_decode_ascii) (simp add: lit_def)
  have s: "map_of [(lit ''success'', JString (lit ''yes'')), (lit ''receipt'', JInt 42)]
             (lit ''success'') = Some (JString (lit ''yes''))"
    and t: "map_of [(lit ''success'', JString (lit ''yes'')), (lit ''receipt'', JInt 42)]
             (lit ''receipt'') = Some (JInt 42)"
    by (simp_all add: lit_def)
  have ts: "truthy (JString (lit ''yes''))" and tr: "truthy (JInt 42)"
    by (simp_all add: lit_def)
  have a: \<open>stdout_accepts
      (stdout_errors (mock_world (Responded 200
         (map of_nat (lit ''{"success": "yes", "receipt": 42}'')))))
      (py_str (repr (mock_world (Responded 200
         (map of_nat (lit ''{"success": "yes", "receipt": 42}''))))) (JInt 42))\<close>
    by (simp add: py_str_def str_int_def decimal.simps stdout_accepts_def)
  from C10_truthiness_only [OF mock_config r mock_network d loads_truthy_body s ts t tr a]
  show ?thesis
    by (simp add: py_str_def str_int_def decimal.simps print_line_def) (simp add: lit_def)
qed

lemma loads_surrogate_body_fuel:
  \<open>scan_once (Suc (Suc (Suc (Suc n)))) (Suc d)
     (lit ''{"success": true, "receipt": "'' @ [92] @ lit ''ud800"}'') =
     Parsed (JObject [(lit ''success'', JBool True), (lit ''receipt'', JString [0xD800])]) []\<close>
  by (simp add: scanstring.simps lit_def cons_char_def skip_ws_def is_ws_def hex4_def hex_val_def)

lemma loads_surrogate_body:
  \<open>json_loads (lit ''{"success": true, "receipt": "'' @ [92] @ lit ''ud800"}'') =
     Parsed (JObject [(lit ''success'', JBool True), (lit ''receipt'', JString [0xD800])]) []\<close>
proof -
  have f: \<open>2 * length (lit ''{"success": true, "receipt": "'' @ [92] @ lit ''ud800"}'') + 2 =
      Suc (Suc (Suc (Suc 74)))\<close>
    by (simp add: lit_def)
  have w: \<open>skip_ws (lit ''{"success": true, "receipt": "'' @ [92] @ lit ''ud800"}'') =
      lit ''{"success": true, "receipt": "'' @ [92] @ lit ''ud800"}''\<close>
    by (simp add: skip_ws_def is_ws_def lit_def)
  have n: \<open>lit ''{"success": true, "receipt": "'' @ [92] @ lit ''ud800"}'' \<noteq> [] \<and>
      hd (lit ''{"success": true, "receipt": "'' @ [92] @ lit ''ud800"}'') \<noteq> 0xFEFF\<close>
    by (simp add: lit_def)
  show ?thesis
    unfolding json_loads_def f w max_nesting_Suc loads_surrogate_body_fuel
    using n by (simp add: skip_ws_def)
qed

theorem C10_truthiness_only_counterexample:
  \<open>utf8_decode (map of_nat (lit ''{"success": true, "receipt": "'' @ [92] @ lit ''ud800"}'')) =
     Inr (lit ''{"success": true, "receipt": "'' @ [92] @ lit ''ud800"}'') \<and>
   json_loads (lit ''{"success": true, "receipt": "'' @ [92] @ lit ''ud800"}'') =
     Parsed (JObject [(lit ''success'', JBool True), (lit ''receipt'', JString [0xD800])]) [] \<and>
   truthy (JBool True) \<and> truthy (JString [0xD800]) \<and>
   main (mock_world (Responded 200
     (map of_nat (lit ''{"success": true, "receipt": "'' @ [92] @ lit ''ud800"}'')))) =
     Raise UnicodeEncodeError \<and>
   exit_status (main (mock_world (Responded 200
     (map of_nat (lit ''{"success": true, "receipt": "'' @ [92] @ lit ''ud800"}''))))) = 1 \<and>
   print_stdout SurrogateEscape [0xD800] = Raise UnicodeEncodeError\<close>
proof -
  obtain req where r: \<open>main_request (lit ''a@b.c'', lit ''https://github.com/o/r'',
      lit ''https://github.com/o/r/actions/runs/7'')
      (utc_now (mock_world (Responded 200
         (map of_nat (lit ''{"success": true, "receipt": "'' @ [92] @ lit ''ud800"}''))))) =
      Return req\<close>
    using mock_request by blast
  have d: \<open>utf8_decode (map of_nat (lit ''{"success": true, "receipt": "'' @ [92] @ lit ''ud800"}'')) =
      Inr (lit ''{"success": true, "receipt": "'' @ [92] @ lit ''ud800"}'')\<close>
    by (rule utf8_decode_ascii) (simp add: lit_def)
  have s: "map_of [(lit ''success'', JBool True), (lit ''receipt'', JString [0xD800])]
             (lit ''success'') = Some (JBool True)"
    and t: "map_of [(lit ''success'', JBool True), (lit ''receipt'', JString [0xD800])]
             (lit ''receipt'') = Some (JString [0xD800])"
    by (simp_all add: lit_def)
  have ts: "truthy (JBool True)" and tr: "truthy (JString [0xD800])"
    by simp_all
  have p: "print_stdout h (py_str rp (JString [0xD800])) = Raise UnicodeEncodeError" for h rp
    by (simp add: print_stdout_def stdout_accepts_def py_str_def)
  from main_prints_receipt [OF mock_config r mock_network d loads_surrogate_body s ts t tr]
  have "main (mock_world (Responded 200
     (map of_nat (lit ''{\"success\": true, \"receipt\": \"'' @ [92] @ lit ''ud800\"}'')))) =
     Raise UnicodeEncodeError"
    by (simp add: p)
  with d loads_surrogate_body p [of SurrogateEscape "\<lambda>v. []"] show ?thesis
    by (simp add: py_str_def)
qed

lemma main_unexpected_response:
  assumes "main_config (environ w) = Return cfg"
    and "main_request cfg (utc_now w) = Return req"
    and "network w req 30 = Responded 200 body"
    and "utf8_decode body = Inr resp_body"
    and "json_loads resp_body = Parsed (JObject d) rest"
    and "\<not> truthy (case map_of d (lit ''success'') of None \<Rightarrow> JNull | Some v \<Rightarrow> v) \<or>
         \<not> truthy (case map_of d (lit ''receipt'') of None \<Rightarrow> JNull | Some v \<Rightarrow> v)"
  shows "main w = SysExit 1 (print_line (lit ''Unexpected response: '' @ resp_body))"
  using assms(6)
  by (simp add: main_sends [OF assms(1,2)] urlopen_Responded [OF assms(3)]
      main_response_object [OF assms(4,5)] Let_def)

lemma loads_success_false:
  \<open>json_loads (lit ''{"success": false}'') = Parsed (JObject [(lit ''success'', JBool False)]) []\<close>
proof -
  have s: \<open>scan_once (Suc (Suc (Suc n))) (Suc d) (lit ''{"success": false}'') =
      Parsed (JObject [(lit ''success'', JBool False)]) []\<close> for n d
    by (simp add: scanstring.simps lit_def cons_char_def skip_ws_def is_ws_def)
  have f: \<open>2 * length (lit ''{"success": false}'') + 2 = Suc (Suc (Suc 35))\<close>
    by (simp add: lit_def)
  have w: \<open>skip_ws (lit ''{"success": false}'') = lit ''{"success": false}''\<close>
    by (simp add: skip_ws_def is_ws_def lit_def)
  have n: \<open>lit ''{"success": false}'' \<noteq> [] \<and> hd (lit ''{"success": false}'') \<noteq> 0xFEFF\<close>
    by (simp add: lit_def)
  show ?thesis
    unfolding json_loads_def f w max_nesting_Suc s using n by (simp add: skip_ws_def)
qed

lemma main_success_false:
  \<open>main (mock_world (Responded 200 (map of_nat (lit ''{"success": false}'')))) =
     SysExit 1 (print_line (lit ''Unexpected response: {"success": false}''))\<close>
proof -
  obtain req where r: \<open>main_request (lit ''a@b.c'', lit ''https://github.com/o/r'',
      lit ''https://github.com/o/r/actions/runs/7'')
      (utc_now (mock_world (Responded 200 (map of_nat (lit ''{"success": false}''))))) = Return req\<close>
    using mock_request by blast
  have d: \<open>utf8_decode (map of_nat (lit ''{"success": false}'')) = Inr (lit ''{"success": false}'')\<close>
    by (rule utf8_decode_ascii) (simp add: lit_def)
  have "main (mock_world (Responded 200 (map of_nat (lit ''{\"success\": false}'')))) =
      SysExit 1 (print_line (lit ''Unexpected response: '' @ lit ''{\"success\": false}''))"
    by (rule main_unexpected_response [OF mock_config r mock_network d loads_success_false])
      (simp add: lit_def)
  then show ?thesis by (simp add: lit_def)
qed

lemma loads_empty_array: "json_loads (lit ''[]'') = Parsed (JArray []) []"
proof -
  have "scan_once (Suc n) (Suc d) (lit ''[]'') = Parsed (JArray []) []" for n d
    by (simp add: lit_def skip_ws_def is_ws_def)
  from this [of 5 993] show ?thesis
    by (simp add: json_loads_def max_nesting_def lit_def skip_ws_def is_ws_def)
qed

text \<open>
  C3. The claim holds for every body that is a JSON object (\<open>main_unexpected_response\<close>,
  and \<open>main_success_false\<close> for \<open>{"success": false}\<close>). It fails for a body that is
  JSON but not an object: for \<open>[]\<close> the call \<open>data.get("receipt")\<close> raises
  \<open>AttributeError\<close>, which nothing catches, so the process ends with a traceback and
  the body is not printed.
\<close>

theorem C3_non_object_body_raises:
  "main (mock_world (Responded 200 (map of_nat (lit ''[]'')))) = Raise AttributeError \<and>
   exit_status (main (mock_world (Responded 200 (map of_nat (lit ''[]''))))) = 1 \<and>
   stderr_text (main (mock_world (Responded 200 (map of_nat (lit ''[]''))))) = None"
proof -
  obtain req where r: "main_request (lit ''a@b.c'', lit ''https://github.com/o/r'',
      lit ''https://github.com/o/r/actions/runs/7'')
      (utc_now (mock_world (Responded 200 (map of_nat (lit ''[]''))))) = Return req"
    using mock_request by blast
  have d: "utf8_decode (map of_nat (lit ''[]'')) = Inr (lit ''[]'')"
    by (rule utf8_decode_ascii) (simp add: lit_def)
  have "main (mock_world (Responded 200 (map of_nat (lit ''[]'')))) = Raise AttributeError"
    by (simp add: main_sends [OF mock_config r] urlopen_Responded [OF mock_network]
        main_response_not_object [OF d loads_empty_array])
  then show ?thesis by simp
qed

end
